theory Spec2Isabelle
  imports Main "HOL-Library.Word"
begin

unbundle bit_operations_syntax

section \<open>Data model\<close>

text \<open>
  The upload pipeline of \<^verbatim>\<open>handler_upload_video.go\<close> and of its two earlier revisions.
  Bytes are 8-bit words, a \<^verbatim>\<open>uuid.UUID\<close> (16 bytes) is a 128-bit word, Go's \<^verbatim>\<open>uint\<close> and
  \<^verbatim>\<open>time.Duration\<close> are 64-bit words. A Go \<^verbatim>\<open>error\<close> is a value of type \<open>error\<close>; a function
  returning \<^verbatim>\<open>(T, error)\<close> returns \<open>error + T\<close>, with \<open>Inl\<close> the error.
\<close>

type_synonym byte = "8 word"
type_synonym uuid = "128 word"
type_synonym Duration = "64 word"

datatype error = Error string

text \<open>
  \<^verbatim>\<open>VideoMeta\<close> is declared outside the files at hand; the probe reads the fields
  \<^verbatim>\<open>Streams\<close>, \<^verbatim>\<open>CodecType\<close> and \<^verbatim>\<open>DisplayAspectRatio\<close> of it.
\<close>

record streamInfo =
  CodecType :: string
  DisplayAspectRatio :: string

record VideoMeta =
  Streams :: "streamInfo list"

section \<open>Probe\<close>

text \<open>
  The loop of \<^verbatim>\<open>getVideoAspectRatio\<close>: a stream that is not a video stream is skipped
  (\<^verbatim>\<open>continue\<close>); a video stream returns its ratio when that is \<^verbatim>\<open>"16:9"\<close> or \<^verbatim>\<open>"9:16"\<close>;
  otherwise the loop goes on to the next stream. After the loop the result is \<^verbatim>\<open>"other"\<close>.
\<close>

fun rangeStreams :: "streamInfo list \<Rightarrow> string" where
  "rangeStreams [] = ''other''"
| "rangeStreams (streamInfo # rest) =
     (if CodecType streamInfo \<noteq> ''video'' then rangeStreams rest
      else if DisplayAspectRatio streamInfo = ''16:9'' \<or> DisplayAspectRatio streamInfo = ''9:16''
        then DisplayAspectRatio streamInfo
      else rangeStreams rest)"

text \<open>
  The handler's renaming of the ratio (\<^verbatim>\<open>if ratio == "16:9" ... else if ratio == "9:16"\<close>):
  any other string is left as it is.
\<close>

definition orientation :: "string \<Rightarrow> string" where
  "orientation ratio =
     (if ratio = ''16:9'' then ''landscape''
      else if ratio = ''9:16'' then ''portrait''
      else ratio)"

text \<open>The classification of a parsed probe result: the loop, then the renaming.\<close>

definition classify :: "VideoMeta \<Rightarrow> string" where
  "classify meta = orientation (rangeStreams (Streams meta))"

text \<open>
  The rule as the specification words it: the first stream of type video decides, by its
  ratio alone.
\<close>

fun firstVideoStream :: "streamInfo list \<Rightarrow> streamInfo option" where
  "firstVideoStream [] = None"
| "firstVideoStream (s # rest) =
     (if CodecType s = ''video'' then Some s else firstVideoStream rest)"

definition classify_spec :: "VideoMeta \<Rightarrow> string" where
  "classify_spec meta =
     (case firstVideoStream (Streams meta) of
        None \<Rightarrow> ''other''
      | Some s \<Rightarrow>
          if DisplayAspectRatio s = ''16:9'' then ''landscape''
          else if DisplayAspectRatio s = ''9:16'' then ''portrait''
          else ''other'')"

text \<open>What the loop selects: the first video stream whose ratio is one of the two known ones.\<close>

fun firstKnownVideoStream :: "streamInfo list \<Rightarrow> streamInfo option" where
  "firstKnownVideoStream [] = None"
| "firstKnownVideoStream (s # rest) =
     (if CodecType s = ''video'' \<and>
         (DisplayAspectRatio s = ''16:9'' \<or> DisplayAspectRatio s = ''9:16'')
      then Some s else firstKnownVideoStream rest)"

section \<open>The world of a request\<close>

text \<open>
  \<^verbatim>\<open>database.Video\<close> and \<^verbatim>\<open>apiConfig\<close> are declared outside the files at hand; the
  fields are those the handlers read and write. A nil \<^verbatim>\<open>*string\<close> is \<open>None\<close>.
\<close>

record Video =
  ID :: uuid
  UserID :: uuid
  VideoURL :: "string option"
  ThumbnailURL :: "string option"

record apiConfig =
  jwtSecret :: string
  s3Bucket :: string
  s3Region :: string
  s3CfDistribution :: string

type_synonym filesystem = "string \<rightharpoonup> byte list"

text \<open>
  What a request does to the outside is recorded twice: in the state it leaves behind
  (files, stored objects, metadata records) and in the list of the outside calls it
  made, in the order it made them. An upload to the object store, a write to the
  metadata store and a signing are recorded whether or not they succeed; the creation
  of a temporary file is recorded with the name it returned.
\<close>

datatype event =
    EvCreateTemp string
  | EvRemove string
  | EvClose string
  | EvRemoveAll
  | EvPutObject string string string
  | EvUpdateVideo Video
  | EvPresignGetObject string string Duration

record world =
  fs :: filesystem
  s3 :: "string \<times> string \<rightharpoonup> byte list \<times> string"
  db :: "uuid \<rightharpoonup> Video"
  events :: "event list"

text \<open>
  The multipart part of the request. \<^verbatim>\<open>MIMEHeader.Get\<close> gives the empty string for a
  key that is absent.
\<close>

record FileHeader =
  Header :: "(string \<times> string) list"

definition Header_Get :: "(string \<times> string) list \<Rightarrow> string \<Rightarrow> string" where
  "Header_Get h key = (case map_of h key of None \<Rightarrow> [] | Some v \<Rightarrow> v)"

record request =
  PathValue :: "string \<Rightarrow> string"
  RequestHeader :: "(string \<times> string) list"
  Body :: "byte list"
  MultipartForm :: "(string \<times> byte list \<times> FileHeader) list option"

text \<open>
  The collaborators outside the repository (the uuid, auth, net/http, mime, os, io,
  process, S3 and database layers, the random source and the two helpers
  \<^verbatim>\<open>getAssetPath\<close> and \<^verbatim>\<open>mediaTypeToExt\<close>) are the fields of one record: each field
  says what the call returns. Nothing is assumed of them.
\<close>

record env =
  uuid_Parse :: "string \<Rightarrow> error + uuid"
  auth_GetBearerToken :: "(string \<times> string) list \<Rightarrow> error + string"
  auth_ValidateJWT :: "string \<Rightarrow> string \<Rightarrow> error + uuid"
  ParseMultipartForm :: "request \<Rightarrow> 64 word \<Rightarrow> error option \<times> request"
  FormFile :: "request \<Rightarrow> string \<Rightarrow> error + byte list \<times> FileHeader"
  mime_ParseMediaType :: "string \<Rightarrow> error + string"
  os_CreateTemp :: "string \<Rightarrow> string \<Rightarrow> filesystem \<Rightarrow> error + string"
  io_Copy :: "byte list \<Rightarrow> nat \<times> error option"
  run_ffprobe :: "filesystem \<Rightarrow> string \<Rightarrow> error + byte list"
  json_Unmarshal :: "byte list \<Rightarrow> error + VideoMeta"
  run_ffmpeg :: "string \<Rightarrow> string \<Rightarrow> filesystem \<Rightarrow> error option \<times> filesystem"
  s3_PutObject :: "string \<Rightarrow> string \<Rightarrow> byte list \<Rightarrow> string \<Rightarrow> error option"
  db_UpdateVideo :: "Video \<Rightarrow> error option"
  s3_PresignGetObject :: "string \<Rightarrow> string \<Rightarrow> Duration \<Rightarrow> error + string"
  rand_Read :: "byte list"
  getAssetPath :: "string \<Rightarrow> string"
  mediaTypeToExt :: "string \<Rightarrow> string"

text \<open>
  The answer of a handler: \<^verbatim>\<open>respondWithError(w, code, msg, err)\<close>,
  \<^verbatim>\<open>respondWithJSON(w, code, payload)\<close>, or a panic that leaves the handler (the deferred
  calls still run).
\<close>

datatype response =
    respondWithError nat string
  | respondWithJSON nat Video
  | Panic

subsection \<open>Outside calls, on the world\<close>

definition CreateTemp :: "env \<Rightarrow> string \<Rightarrow> string \<Rightarrow> world \<Rightarrow> (error + string) \<times> world" where
  "CreateTemp e dir pattern w =
     (case os_CreateTemp e dir pattern (fs w) of
        Inl err \<Rightarrow> (Inl err, w)
      | Inr name \<Rightarrow>
          (Inr name, w\<lparr>fs := (fs w)(name \<mapsto> []), events := events w @ [EvCreateTemp name]\<rparr>))"

text \<open>
  \<^verbatim>\<open>io.Copy(tmpFile, uploadedVideo)\<close>: the bytes written before the copy ended are in
  the file, whether it ended at the end of the upload or on an error.
\<close>

definition Copy :: "env \<Rightarrow> string \<Rightarrow> byte list \<Rightarrow> world \<Rightarrow> error option \<times> world" where
  "Copy e name src w =
     (case io_Copy e src of
        (written, err) \<Rightarrow> (err, w\<lparr>fs := (fs w)(name \<mapsto> take written src)\<rparr>))"

definition os_Stat :: "filesystem \<Rightarrow> string \<Rightarrow> error + int" where
  "os_Stat fsys name =
     (case fsys name of
        None \<Rightarrow> Inl (Error ''no such file or directory'')
      | Some content \<Rightarrow> Inr (int (length content)))"

definition os_Open :: "filesystem \<Rightarrow> string \<Rightarrow> error + byte list" where
  "os_Open fsys name =
     (case fsys name of
        None \<Rightarrow> Inl (Error ''no such file or directory'')
      | Some content \<Rightarrow> Inr content)"

definition PutObject ::
  "env \<Rightarrow> string \<Rightarrow> string \<Rightarrow> byte list \<Rightarrow> string \<Rightarrow> world \<Rightarrow> error option \<times> world"
where
  "PutObject e bucket key body contentType w =
     (let w' = w\<lparr>events := events w @ [EvPutObject bucket key contentType]\<rparr> in
      case s3_PutObject e bucket key body contentType of
        Some err \<Rightarrow> (Some err, w')
      | None \<Rightarrow> (None, w'\<lparr>s3 := (s3 w')((bucket, key) \<mapsto> (body, contentType))\<rparr>))"

definition GetVideo :: "world \<Rightarrow> uuid \<Rightarrow> error + Video" where
  "GetVideo w videoID =
     (case db w videoID of
        None \<Rightarrow> Inl (Error ''sql: no rows in result set'')
      | Some video \<Rightarrow> Inr video)"

definition UpdateVideo :: "env \<Rightarrow> Video \<Rightarrow> world \<Rightarrow> error option \<times> world" where
  "UpdateVideo e video w =
     (let w' = w\<lparr>events := events w @ [EvUpdateVideo video]\<rparr> in
      case db_UpdateVideo e video of
        Some err \<Rightarrow> (Some err, w')
      | None \<Rightarrow> (None, w'\<lparr>db := (db w')(ID video \<mapsto> video)\<rparr>))"

subsection \<open>Deferred calls\<close>

text \<open>
  A \<^verbatim>\<open>defer\<close> statement runs its call when the handler returns, on every return
  reached after the statement, the latest deferred call first. \<open>deferring d rest\<close> is
  the rest of the handler followed by the call \<open>d\<close>; nesting gives the order.
\<close>

datatype deferred = DeferClose string | DeferRemoveAll | DeferRemove string

fun runDeferred :: "deferred \<Rightarrow> world \<Rightarrow> world" where
  "runDeferred (DeferClose name) w = w\<lparr>events := events w @ [EvClose name]\<rparr>"
| "runDeferred DeferRemoveAll w = w\<lparr>events := events w @ [EvRemoveAll]\<rparr>"
| "runDeferred (DeferRemove name) w =
     w\<lparr>fs := (fs w)(name := None), events := events w @ [EvRemove name]\<rparr>"

definition deferring :: "deferred \<Rightarrow> response \<times> world \<Rightarrow> response \<times> world" where
  "deferring d rest = (fst rest, runDeferred d (snd rest))"

section \<open>Probe and remux on the world\<close>

text \<open>
  \<^verbatim>\<open>getVideoAspectRatio\<close>: \<^verbatim>\<open>ffprobe\<close> is run on the path and its standard output is
  parsed as JSON; either may fail, and the failure is returned as it is. The probe reads
  the file and writes nothing.
\<close>

definition getVideoAspectRatio :: "env \<Rightarrow> filesystem \<Rightarrow> string \<Rightarrow> error + string" where
  "getVideoAspectRatio e fsys filepath =
     (case run_ffprobe e fsys filepath of
        Inl err \<Rightarrow> Inl err
      | Inr buffer \<Rightarrow>
          (case json_Unmarshal e buffer of
             Inl err \<Rightarrow> Inl err
           | Inr meta \<Rightarrow> Inr (rangeStreams (Streams meta))))"

text \<open>
  \<^verbatim>\<open>processVideoForFastStart\<close>: the output path is the input path with
  \<^verbatim>\<open>".processing"\<close> appended; \<^verbatim>\<open>ffmpeg\<close> runs and may write files; when it reports
  success the output is looked up with \<^verbatim>\<open>os.Stat\<close> and its size is tested.
\<close>

definition processVideoForFastStart :: "env \<Rightarrow> string \<Rightarrow> world \<Rightarrow> (error + string) \<times> world" where
  "processVideoForFastStart e filepath w =
     (let output = filepath @ ''.processing'' in
      case run_ffmpeg e filepath output (fs w) of
        (Some err, fsys) \<Rightarrow> (Inl err, w\<lparr>fs := fsys\<rparr>)
      | (None, fsys) \<Rightarrow>
          (case os_Stat fsys output of
             Inl err \<Rightarrow> (Inl (Error ''could not stat processed file''), w\<lparr>fs := fsys\<rparr>)
           | Inr fileSize \<Rightarrow>
               if fileSize = 0 then (Inl (Error ''processed file is empty''), w\<lparr>fs := fsys\<rparr>)
               else (Inr output, w\<lparr>fs := fsys\<rparr>)))"

section \<open>The handler of \<^verbatim>\<open>handler_upload_video.go\<close>\<close>

text \<open>
  The handler is one Go function with early returns and deferred calls. It is cut here
  at its \<^verbatim>\<open>defer\<close> statements, each piece being what runs before the deferred calls
  registered ahead of it. Lines 71 to 100, the same in the three revisions of the
  handler: the identifier, the token, the record and its owner.
\<close>

definition validateOwnership :: "env \<Rightarrow> apiConfig \<Rightarrow> request \<Rightarrow> world \<Rightarrow> response + Video" where
  "validateOwnership e cfg r w =
     (case uuid_Parse e (PathValue r ''videoID'') of
        Inl err \<Rightarrow> Inl (respondWithError 400 ''Invalid ID'')
      | Inr videoID \<Rightarrow>
     (case auth_GetBearerToken e (RequestHeader r) of
        Inl err \<Rightarrow> Inl (respondWithError 401 ''Couldn't find JWT'')
      | Inr token \<Rightarrow>
     (case auth_ValidateJWT e token (jwtSecret cfg) of
        Inl err \<Rightarrow> Inl (respondWithError 401 ''Couldn't validate JWT'')
      | Inr userID \<Rightarrow>
     (case GetVideo w videoID of
        Inl err \<Rightarrow> Inl (respondWithError 400 ''No video corresponding to videoID'')
      | Inr video \<Rightarrow>
          if UserID video \<noteq> userID
          then Inl (respondWithError 401 ''User is not the owner of the video'')
          else Inr video))))"

text \<open>Lines 168 to 203: the processed file is opened, uploaded, and the record is updated.\<close>

definition handlerUploadVideo_processed ::
  "env \<Rightarrow> apiConfig \<Rightarrow> Video \<Rightarrow> string \<Rightarrow> string \<Rightarrow> string \<Rightarrow> world \<Rightarrow> response \<times> world"
where
  "handlerUploadVideo_processed e cfg video mediaType ratio processed w =
     (case os_Open (fs w) processed of
        Inl err \<Rightarrow> (respondWithError 500 ''Error when converting video for streaming'', w)
      | Inr processedFile \<Rightarrow>
     deferring (DeferClose processed)
     (let key = ratio @ ''/'' @ getAssetPath e mediaType in
      case PutObject e (s3Bucket cfg) key processedFile mediaType w of
        (Some err, w) \<Rightarrow> (respondWithError 500 ''Error when sending file to s3'', w)
      | (None, w) \<Rightarrow>
     (let videoURL = ''https://'' @ s3CfDistribution cfg @ ''/'' @ key;
          video = video\<lparr>VideoURL := Some videoURL\<rparr> in
      case UpdateVideo e video w of
        (Some err, w) \<Rightarrow> (respondWithError 500 ''Error when updating video'', w)
      | (None, w) \<Rightarrow> (respondWithJSON 200 video, w))))"

text \<open>
  Lines 154 to 166: the ratio is renamed and the staged file is remuxed; the removal of
  the processed file is deferred once the remux has succeeded.
\<close>

definition handlerUploadVideo_probed ::
  "env \<Rightarrow> apiConfig \<Rightarrow> Video \<Rightarrow> string \<Rightarrow> string \<Rightarrow> string \<Rightarrow> world \<Rightarrow> response \<times> world"
where
  "handlerUploadVideo_probed e cfg video mediaType ratio tmpFile w =
     (let ratio = orientation ratio in
      case processVideoForFastStart e tmpFile w of
        (Inl err, w) \<Rightarrow> (respondWithError 500 ''Error when converting video for streaming'', w)
      | (Inr processed, w) \<Rightarrow>
          deferring (DeferRemove processed)
            (handlerUploadVideo_processed e cfg video mediaType ratio processed w))"

text \<open>
  Lines 117 to 152: the declared content type is parsed and tested, the temporary file
  is created, the upload is copied into it and probed. The removal of the temporary
  file and its closing are deferred on lines 151 and 152, after the probe.
\<close>

definition handlerUploadVideo_accepted ::
  "env \<Rightarrow> apiConfig \<Rightarrow> Video \<Rightarrow> byte list \<Rightarrow> FileHeader \<Rightarrow> world \<Rightarrow> response \<times> world"
where
  "handlerUploadVideo_accepted e cfg video uploadedVideo header w =
     (case mime_ParseMediaType e (Header_Get (Header header) ''Content-Type'') of
        Inl err \<Rightarrow> (respondWithError 400 ''Invalid Content-Type'', w)
      | Inr mediaType \<Rightarrow>
     if mediaType \<noteq> ''video/mp4'' then (respondWithError 400 ''Invalid file type'', w)
     else
     (case CreateTemp e [] ''tubely-upload.mp4'' w of
        (Inl err, w) \<Rightarrow> (respondWithError 500 ''Error when creating temp file'', w)
      | (Inr tmpFile, w) \<Rightarrow>
     (case Copy e tmpFile uploadedVideo w of
        (Some err, w) \<Rightarrow> (respondWithError 500 ''Error when writing temp video file'', w)
      | (None, w) \<Rightarrow>
     (case getVideoAspectRatio e (fs w) tmpFile of
        Inl err \<Rightarrow> (respondWithError 500 ''Error when fetching video ratio'', w)
      | Inr ratio \<Rightarrow>
          deferring (DeferRemove tmpFile)
            (deferring (DeferClose tmpFile)
               (handlerUploadVideo_probed e cfg video mediaType ratio tmpFile w))))))"

text \<open>
  The handler. Lines 104 to 115: the upload limit is \<^verbatim>\<open>1 << 30\<close>; the form is parsed and
  what the parse returns is dropped; the field \<^verbatim>\<open>"video"\<close> is fetched; closing the upload
  and removing the form's files are deferred.
\<close>

definition handlerUploadVideo :: "env \<Rightarrow> apiConfig \<Rightarrow> request \<Rightarrow> world \<Rightarrow> response \<times> world" where
  "handlerUploadVideo e cfg r w =
     (case validateOwnership e cfg r w of
        Inl response \<Rightarrow> (response, w)
      | Inr video \<Rightarrow>
     (let uploadLimit = push_bit 30 1 in
      case ParseMultipartForm e r uploadLimit of
        (err, r) \<Rightarrow>
     (case FormFile e r ''video'' of
        Inl err \<Rightarrow> (respondWithError 400 ''Unable to parse form file'', w)
      | Inr (uploadedVideo, header) \<Rightarrow>
          deferring (DeferClose ''uploadedVideo'')
            (deferring DeferRemoveAll
               (handlerUploadVideo_accepted e cfg video uploadedVideo header w)))))"


section \<open>The revision with signed URLs\<close>

text \<open>
  \<^verbatim>\<open>strings.Split(s, ",")\<close>, for the separator of one byte that the code passes: the
  pieces between the separators, one more than there are separators.
\<close>

fun strings_Split_from :: "string \<Rightarrow> string \<Rightarrow> char \<Rightarrow> string list" where
  "strings_Split_from piece [] sep = [piece]"
| "strings_Split_from piece (c # s) sep =
     (if c = sep then piece # strings_Split_from [] s sep
      else strings_Split_from (piece @ [c]) s sep)"

definition strings_Split :: "string \<Rightarrow> char \<Rightarrow> string list" where
  "strings_Split s sep = strings_Split_from [] s sep"

text \<open>\<^verbatim>\<open>time.Second\<close>, in nanoseconds.\<close>

definition time_Second :: Duration where
  "time_Second = 1000000000"

definition generatePresignedURL ::
  "env \<Rightarrow> string \<Rightarrow> string \<Rightarrow> Duration \<Rightarrow> world \<Rightarrow> (error + string) \<times> world"
where
  "generatePresignedURL e bucket key expireTime w =
     (let w = w\<lparr>events := events w @ [EvPresignGetObject bucket key expireTime]\<rparr> in
      case s3_PresignGetObject e bucket key expireTime of
        Inl err \<Rightarrow> (Inl err, w)
      | Inr url \<Rightarrow> (Inr url, w))"

text \<open>
  \<^verbatim>\<open>dbVideoToSignedVideo\<close> returns a record and an error. It reads \<^verbatim>\<open>*video.VideoURL\<close>
  first: on a record whose URL is nil that is a nil dereference.
\<close>

datatype 'a outcome = NilDereference | Returns 'a

definition dbVideoToSignedVideo ::
  "env \<Rightarrow> Video \<Rightarrow> world \<Rightarrow> (Video \<times> error option) outcome \<times> world"
where
  "dbVideoToSignedVideo e video w =
     (case VideoURL video of
        None \<Rightarrow> (NilDereference, w)
      | Some url \<Rightarrow>
     (let splitted = strings_Split url CHR '','' in
      if length splitted < 2 then (Returns (video, None), w)
      else
     (case generatePresignedURL e (splitted ! 0) (splitted ! 1) (time_Second * 5) w of
        (Inl err, w) \<Rightarrow> (Returns (video, Some err), w)
      | (Inr presignedUrl, w) \<Rightarrow>
          (Returns (video\<lparr>VideoURL := Some presignedUrl\<rparr>, None), w))))"

text \<open>
  The handler of this revision (the first file of \<^verbatim>\<open>part_001\<close>) is the one above up to
  the key, which takes \<^verbatim>\<open>getAssetPath(mediaTypeToExt(mediaType))\<close>, and the stored
  reference, which is the bucket and the key with a comma between; after the record is
  written it is passed through \<^verbatim>\<open>dbVideoToSignedVideo\<close>. Lines 171 to 213:
\<close>

definition handlerUploadVideo_signed_processed ::
  "env \<Rightarrow> apiConfig \<Rightarrow> Video \<Rightarrow> string \<Rightarrow> string \<Rightarrow> string \<Rightarrow> world \<Rightarrow> response \<times> world"
where
  "handlerUploadVideo_signed_processed e cfg video mediaType ratio processed w =
     (case os_Open (fs w) processed of
        Inl err \<Rightarrow> (respondWithError 500 ''Error when converting video for streaming'', w)
      | Inr processedFile \<Rightarrow>
     deferring (DeferClose processed)
     (let key = ratio @ ''/'' @ getAssetPath e (mediaTypeToExt e mediaType) in
      case PutObject e (s3Bucket cfg) key processedFile mediaType w of
        (Some err, w) \<Rightarrow> (respondWithError 500 ''Error when sending file to s3'', w)
      | (None, w) \<Rightarrow>
     (let videoURL = s3Bucket cfg @ '','' @ key;
          video = video\<lparr>VideoURL := Some videoURL\<rparr> in
      case UpdateVideo e video w of
        (Some err, w) \<Rightarrow> (respondWithError 500 ''Error when updating video'', w)
      | (None, w) \<Rightarrow>
     (case dbVideoToSignedVideo e video w of
        (NilDereference, w) \<Rightarrow> (Panic, w)
      | (Returns (video, Some err), w) \<Rightarrow> (respondWithError 500 ''Error when updating video'', w)
      | (Returns (video, None), w) \<Rightarrow> (respondWithJSON 200 video, w)))))"

text \<open>Lines 157 to 169.\<close>

definition handlerUploadVideo_signed_probed ::
  "env \<Rightarrow> apiConfig \<Rightarrow> Video \<Rightarrow> string \<Rightarrow> string \<Rightarrow> string \<Rightarrow> world \<Rightarrow> response \<times> world"
where
  "handlerUploadVideo_signed_probed e cfg video mediaType ratio tmpFile w =
     (let ratio = orientation ratio in
      case processVideoForFastStart e tmpFile w of
        (Inl err, w) \<Rightarrow> (respondWithError 500 ''Error when converting video for streaming'', w)
      | (Inr processed, w) \<Rightarrow>
          deferring (DeferRemove processed)
            (handlerUploadVideo_signed_processed e cfg video mediaType ratio processed w))"

text \<open>Lines 120 to 155.\<close>

definition handlerUploadVideo_signed_accepted ::
  "env \<Rightarrow> apiConfig \<Rightarrow> Video \<Rightarrow> byte list \<Rightarrow> FileHeader \<Rightarrow> world \<Rightarrow> response \<times> world"
where
  "handlerUploadVideo_signed_accepted e cfg video uploadedVideo header w =
     (case mime_ParseMediaType e (Header_Get (Header header) ''Content-Type'') of
        Inl err \<Rightarrow> (respondWithError 400 ''Invalid Content-Type'', w)
      | Inr mediaType \<Rightarrow>
     if mediaType \<noteq> ''video/mp4'' then (respondWithError 400 ''Invalid file type'', w)
     else
     (case CreateTemp e [] ''tubely-upload.mp4'' w of
        (Inl err, w) \<Rightarrow> (respondWithError 500 ''Error when creating temp file'', w)
      | (Inr tmpFile, w) \<Rightarrow>
     (case Copy e tmpFile uploadedVideo w of
        (Some err, w) \<Rightarrow> (respondWithError 500 ''Error when writing temp video file'', w)
      | (None, w) \<Rightarrow>
     (case getVideoAspectRatio e (fs w) tmpFile of
        Inl err \<Rightarrow> (respondWithError 500 ''Error when fetching video ratio'', w)
      | Inr ratio \<Rightarrow>
          deferring (DeferRemove tmpFile)
            (deferring (DeferClose tmpFile)
               (handlerUploadVideo_signed_probed e cfg video mediaType ratio tmpFile w))))))"

text \<open>Lines 73 to 118.\<close>

definition handlerUploadVideo_signed ::
  "env \<Rightarrow> apiConfig \<Rightarrow> request \<Rightarrow> world \<Rightarrow> response \<times> world"
where
  "handlerUploadVideo_signed e cfg r w =
     (case validateOwnership e cfg r w of
        Inl response \<Rightarrow> (response, w)
      | Inr video \<Rightarrow>
     (let uploadLimit = push_bit 30 1 in
      case ParseMultipartForm e r uploadLimit of
        (err, r) \<Rightarrow>
     (case FormFile e r ''video'' of
        Inl err \<Rightarrow> (respondWithError 400 ''Unable to parse form file'', w)
      | Inr (uploadedVideo, header) \<Rightarrow>
          deferring (DeferClose ''uploadedVideo'')
            (deferring DeferRemoveAll
               (handlerUploadVideo_signed_accepted e cfg video uploadedVideo header w)))))"


section \<open>The revision with random keys\<close>

text \<open>
  \<^verbatim>\<open>base64.RawURLEncoding.EncodeToString\<close>: the URL-safe alphabet, no padding. Three
  bytes are put in a \<^verbatim>\<open>uint\<close>, the first in the bits 16 to 23, and give four characters,
  six bits each; two bytes left at the end give three characters, one byte gives two.
\<close>

definition encodeURL :: string where
  "encodeURL = ''ABCDEFGHIJKLMNOPQRSTUVWXYZabcdefghijklmnopqrstuvwxyz0123456789-_''"

definition encode :: "64 word \<Rightarrow> char" where
  "encode i = encodeURL ! unat i"

definition val3 :: "byte \<Rightarrow> byte \<Rightarrow> byte \<Rightarrow> 64 word" where
  "val3 s0 s1 s2 = push_bit 16 (ucast s0) OR push_bit 8 (ucast s1) OR ucast s2"

definition val2 :: "byte \<Rightarrow> byte \<Rightarrow> 64 word" where
  "val2 s0 s1 = push_bit 16 (ucast s0) OR push_bit 8 (ucast s1)"

definition val1 :: "byte \<Rightarrow> 64 word" where
  "val1 s0 = push_bit 16 (ucast s0)"

fun EncodeToString :: "byte list \<Rightarrow> string" where
  "EncodeToString (s0 # s1 # s2 # src) =
     (let val = val3 s0 s1 s2 in
      encode (drop_bit 18 val AND 0x3F) # encode (drop_bit 12 val AND 0x3F) #
      encode (drop_bit 6 val AND 0x3F) # encode (val AND 0x3F) # EncodeToString src)"
| "EncodeToString [s0, s1] =
     (let val = val2 s0 s1 in
      [encode (drop_bit 18 val AND 0x3F), encode (drop_bit 12 val AND 0x3F),
       encode (drop_bit 6 val AND 0x3F)])"
| "EncodeToString [s0] =
     (let val = val1 s0 in
      [encode (drop_bit 18 val AND 0x3F), encode (drop_bit 12 val AND 0x3F)])"
| "EncodeToString [] = []"

text \<open>
  \<^verbatim>\<open>rand.Read(randName)\<close> on the buffer made by \<^verbatim>\<open>make([]byte, 32)\<close>: the bytes the
  source delivers are written over the start of the buffer; what the call returns is
  not looked at. The buffer keeps its length.
\<close>

definition rand_Read_into :: "env \<Rightarrow> byte list \<Rightarrow> byte list" where
  "rand_Read_into e buf = take (length buf) (rand_Read e) @ drop (length (rand_Read e)) buf"

text \<open>The upload body of this revision is the temporary file itself, read from its start.\<close>

definition ReadAll :: "filesystem \<Rightarrow> string \<Rightarrow> byte list" where
  "ReadAll fsys name = (case fsys name of None \<Rightarrow> [] | Some content \<Rightarrow> content)"

text \<open>
  The handler of this revision (the second file of \<^verbatim>\<open>part_001\<close>) defers the removal of
  the temporary file right after its creation, does not remux, derives the key from 32
  random bytes and stores the URL of the object in the bucket. Lines 363 to 416:
\<close>

definition handlerUploadVideo_direct_staged ::
  "env \<Rightarrow> apiConfig \<Rightarrow> Video \<Rightarrow> string \<Rightarrow> byte list \<Rightarrow> string \<Rightarrow> world \<Rightarrow> response \<times> world"
where
  "handlerUploadVideo_direct_staged e cfg video mediaType uploadedVideo tmpFile w =
     (case Copy e tmpFile uploadedVideo w of
        (Some err, w) \<Rightarrow> (respondWithError 500 ''Error when writing temp video file'', w)
      | (None, w) \<Rightarrow>
     (case getVideoAspectRatio e (fs w) tmpFile of
        Inl err \<Rightarrow> (respondWithError 500 ''Error when fetching video ratio'', w)
      | Inr ratio \<Rightarrow>
     (let ratio = orientation ratio;
          randName = rand_Read_into e (replicate 32 0);
          rawUrlEncoding = EncodeToString randName;
          key = ratio @ ''/'' @ rawUrlEncoding @ ''.mp4'' in
      case PutObject e (s3Bucket cfg) key (ReadAll (fs w) tmpFile) mediaType w of
        (Some err, w) \<Rightarrow> (respondWithError 500 ''Error when sending file to s3'', w)
      | (None, w) \<Rightarrow>
     (let videoURL = ''https://'' @ s3Bucket cfg @ ''.s3.'' @ s3Region cfg @ ''.amazonaws.com/'' @ key;
          video = video\<lparr>VideoURL := Some videoURL\<rparr> in
      case UpdateVideo e video w of
        (Some err, w) \<Rightarrow> (respondWithError 500 ''Error when updating thumbnail'', w)
      | (None, w) \<Rightarrow> (respondWithJSON 200 video, w)))))"

text \<open>Lines 341 to 361.\<close>

definition handlerUploadVideo_direct_accepted ::
  "env \<Rightarrow> apiConfig \<Rightarrow> Video \<Rightarrow> byte list \<Rightarrow> FileHeader \<Rightarrow> world \<Rightarrow> response \<times> world"
where
  "handlerUploadVideo_direct_accepted e cfg video uploadedVideo header w =
     (case mime_ParseMediaType e (Header_Get (Header header) ''Content-Type'') of
        Inl err \<Rightarrow> (respondWithError 400 ''Invalid Content-Type'', w)
      | Inr mediaType \<Rightarrow>
     if mediaType \<noteq> ''video/mp4'' then (respondWithError 400 ''Invalid file type'', w)
     else
     (case CreateTemp e [] ''tubely-upload.mp4'' w of
        (Inl err, w) \<Rightarrow> (respondWithError 500 ''Error when creating temp file'', w)
      | (Inr tmpFile, w) \<Rightarrow>
          deferring (DeferRemove tmpFile)
            (deferring (DeferClose tmpFile)
               (handlerUploadVideo_direct_staged e cfg video mediaType uploadedVideo tmpFile w))))"

text \<open>Lines 294 to 339.\<close>

definition handlerUploadVideo_direct ::
  "env \<Rightarrow> apiConfig \<Rightarrow> request \<Rightarrow> world \<Rightarrow> response \<times> world"
where
  "handlerUploadVideo_direct e cfg r w =
     (case validateOwnership e cfg r w of
        Inl response \<Rightarrow> (response, w)
      | Inr video \<Rightarrow>
     (let uploadLimit = push_bit 30 1 in
      case ParseMultipartForm e r uploadLimit of
        (err, r) \<Rightarrow>
     (case FormFile e r ''video'' of
        Inl err \<Rightarrow> (respondWithError 400 ''Unable to parse form file'', w)
      | Inr (uploadedVideo, header) \<Rightarrow>
          deferring (DeferClose ''uploadedVideo'')
            (deferring DeferRemoveAll
               (handlerUploadVideo_direct_accepted e cfg video uploadedVideo header w)))))"


section \<open>Properties of a run\<close>

text \<open>
  The calls of a run that touch the stored reference or resolve it (the writes to the
  metadata store and the signings), and the uploads to the object store.
  \<open>new_events w w'\<close> are the calls made between the worlds \<open>w\<close> and \<open>w'\<close>.
\<close>

fun storeEvent :: "event \<Rightarrow> bool" where
  "storeEvent (EvUpdateVideo video) = True"
| "storeEvent (EvPresignGetObject bucket key expires) = True"
| "storeEvent ev = False"

fun putEvent :: "event \<Rightarrow> bool" where
  "putEvent (EvPutObject bucket key contentType) = True"
| "putEvent ev = False"

definition new_events :: "world \<Rightarrow> world \<Rightarrow> event list" where
  "new_events w w' = drop (length (events w)) (events w')"


text \<open>
  What a run of the signed revision may do to the stored reference of the record
  \<open>video\<close>, with \<open>key\<close> the key of the upload, \<open>ct\<close> its content type and \<open>b\<close>, \<open>k\<close> the
  bucket and key that are signed: nothing; or, after the one upload under \<open>key\<close>, one
  write of the record with the reference \<open>bucket,key\<close>, refused by the store; or that
  write, accepted, followed by one signing with an expiry of five seconds, the answer
  carrying the signed URL or the signing error.
\<close>

definition signed_trace ::
  "env \<Rightarrow> apiConfig \<Rightarrow> Video \<Rightarrow> string \<Rightarrow> string \<Rightarrow> string \<Rightarrow> string \<Rightarrow> response
     \<Rightarrow> event list \<Rightarrow> (uuid \<rightharpoonup> Video) \<Rightarrow> (uuid \<rightharpoonup> Video) \<Rightarrow> bool"
where
  "signed_trace e cfg video ct key b k resp new dbw dbw' =
    ((filter storeEvent new = [] \<and> dbw' = dbw \<and> (\<forall>v. resp \<noteq> respondWithJSON 200 v))
   \<or> (filter storeEvent new
          = [EvUpdateVideo (video\<lparr>VideoURL := Some (s3Bucket cfg @ '','' @ key)\<rparr>)]
        \<and> filter putEvent new = [EvPutObject (s3Bucket cfg) key ct]
        \<and> db_UpdateVideo e (video\<lparr>VideoURL := Some (s3Bucket cfg @ '','' @ key)\<rparr>) \<noteq> None
        \<and> dbw' = dbw \<and> (\<forall>v. resp \<noteq> respondWithJSON 200 v))
   \<or> (filter storeEvent new
          = [EvUpdateVideo (video\<lparr>VideoURL := Some (s3Bucket cfg @ '','' @ key)\<rparr>),
             EvPresignGetObject b k (time_Second * 5)]
        \<and> filter putEvent new = [EvPutObject (s3Bucket cfg) key ct]
        \<and> db_UpdateVideo e (video\<lparr>VideoURL := Some (s3Bucket cfg @ '','' @ key)\<rparr>) = None
        \<and> dbw' = dbw(ID video \<mapsto> video\<lparr>VideoURL := Some (s3Bucket cfg @ '','' @ key)\<rparr>)
        \<and> (case s3_PresignGetObject e b k (time_Second * 5) of
              Inl err \<Rightarrow> resp = respondWithError 500 ''Error when updating video''
            | Inr url \<Rightarrow> resp = respondWithJSON 200 (video\<lparr>VideoURL := Some url\<rparr>))))"

definition signed_ok ::
  "env \<Rightarrow> apiConfig \<Rightarrow> Video \<Rightarrow> string \<Rightarrow> world \<Rightarrow> response \<times> world \<Rightarrow> bool"
where
  "signed_ok e cfg video ct w res =
     (\<exists>key b k new. events (snd res) = events w @ new
        \<and> signed_trace e cfg video ct key b k (fst res) new (db w) (db (snd res)))"

text \<open>
  The probe of a run, followed back to the request: \<open>probed\<close> is what the probe of a file
  parses to; \<open>staged_probe\<close> is the probe of the temporary file, created on the file
  system \<open>fsys\<close> and holding what the copy of the upload wrote; \<open>request_probe\<close> is that
  probe for the field \<^verbatim>\<open>"video"\<close> of the request.
\<close>

definition probed :: "env \<Rightarrow> filesystem \<Rightarrow> string \<Rightarrow> VideoMeta \<Rightarrow> bool" where
  "probed e fsys tmpFile meta =
     (\<exists>buffer. run_ffprobe e fsys tmpFile = Inr buffer \<and> json_Unmarshal e buffer = Inr meta)"

definition staged_probe :: "env \<Rightarrow> filesystem \<Rightarrow> byte list \<Rightarrow> VideoMeta \<Rightarrow> bool" where
  "staged_probe e fsys uploadedVideo meta =
     (\<exists>tmpFile. os_CreateTemp e [] ''tubely-upload.mp4'' fsys = Inr tmpFile \<and>
        probed e (fsys(tmpFile \<mapsto> take (fst (io_Copy e uploadedVideo)) uploadedVideo)) tmpFile meta)"

definition request_probe :: "env \<Rightarrow> request \<Rightarrow> filesystem \<Rightarrow> VideoMeta \<Rightarrow> bool" where
  "request_probe e r fsys meta =
     (\<exists>uploadedVideo header.
        FormFile e (snd (ParseMultipartForm e r (push_bit 30 1))) ''video''
          = Inr (uploadedVideo, header) \<and>
        staged_probe e fsys uploadedVideo meta)"

text \<open>
  What a run of the revision with random keys has done when it answers 200: one upload,
  under the key made of the orientation of a probe result that \<open>P\<close> admits, the encoded
  random bytes and \<^verbatim>\<open>.mp4\<close>, and the record written with the URL of that key.
\<close>

definition direct_ok ::
  "env \<Rightarrow> apiConfig \<Rightarrow> Video \<Rightarrow> string \<Rightarrow> (VideoMeta \<Rightarrow> bool) \<Rightarrow> world \<Rightarrow> response \<times> world
     \<Rightarrow> bool"
where
  "direct_ok e cfg video ct P w res =
     (\<exists>new. events (snd res) = events w @ new \<and>
        (\<forall>v. fst res = respondWithJSON 200 v \<longrightarrow>
           (\<exists>meta. P meta \<and>
              v = video\<lparr>VideoURL := Some (''https://'' @ s3Bucket cfg @ ''.s3.'' @ s3Region cfg
                    @ ''.amazonaws.com/'' @ classify meta @ ''/''
                    @ EncodeToString (rand_Read_into e (replicate 32 0)) @ ''.mp4'')\<rparr> \<and>
              db (snd res) = (db w)(ID video \<mapsto> v) \<and>
              filter putEvent new =
                [EvPutObject (s3Bucket cfg)
                   (classify meta @ ''/'' @ EncodeToString (rand_Read_into e (replicate 32 0))
                      @ ''.mp4'')
                   ct])))"

section \<open>A concrete deployment\<close>

text \<open>
  One configuration, one request and one set of collaborators on which every step
  succeeds: the record 1 belongs to the user 7, the token names the user 7, the upload
  is three bytes declared as \<^verbatim>\<open>video/mp4\<close>, the probe reports one 9:16 video stream and
  the remux copies its input. The other scenarios change one collaborator of it.
\<close>

definition cfg0 :: apiConfig where
  "cfg0 = \<lparr>jwtSecret = ''secret'', s3Bucket = ''tubely'', s3Region = ''eu-west-3'',
           s3CfDistribution = ''d1.cloudfront.net''\<rparr>"

definition video0 :: Video where
  "video0 = \<lparr>ID = 1, UserID = 7, VideoURL = None, ThumbnailURL = None\<rparr>"

definition world0 :: world where
  "world0 = \<lparr>fs = Map.empty, s3 = Map.empty, db = [1 \<mapsto> video0], events = []\<rparr>"

definition req0 :: request where
  "req0 = \<lparr>PathValue = (\<lambda>name. ''v1''),
            RequestHeader = [(''Authorization'', ''Bearer t7'')],
            Body = [1, 2, 3],
            MultipartForm = None\<rparr>"

definition env0 :: env where
  "env0 = \<lparr>
     uuid_Parse = (\<lambda>s. if s = ''v1'' then Inr 1 else Inl (Error ''invalid UUID'')),
     auth_GetBearerToken = (\<lambda>h. case map_of h ''Authorization'' of
        None \<Rightarrow> Inl (Error ''no auth header'') | Some v \<Rightarrow> Inr (drop 7 v)),
     auth_ValidateJWT = (\<lambda>token secret.
        if token = ''t7'' then Inr 7 else if token = ''t8'' then Inr 8
        else Inl (Error ''invalid token'')),
     ParseMultipartForm = (\<lambda>r maxMemory.
        (None, r\<lparr>MultipartForm :=
           Some [(''video'', Body r, \<lparr>Header = [(''Content-Type'', ''video/mp4'')]\<rparr>)]\<rparr>)),
     FormFile = (\<lambda>r key. case MultipartForm r of
        None \<Rightarrow> Inl (Error ''request Content-Type is not multipart/form-data'')
      | Some parts \<Rightarrow>
          (case map_of parts key of
             None \<Rightarrow> Inl (Error ''http: no such file'')
           | Some part \<Rightarrow> Inr part)),
     mime_ParseMediaType = (\<lambda>s. if s = [] then Inl (Error ''mime: no media type'') else Inr s),
     os_CreateTemp = (\<lambda>dir pattern fsys. Inr (''/tmp/'' @ pattern @ ''42'')),
     io_Copy = (\<lambda>src. (length src, None)),
     run_ffprobe = (\<lambda>fsys path. case fsys path of
        None \<Rightarrow> Inl (Error ''exit status 1'') | Some content \<Rightarrow> Inr content),
     json_Unmarshal = (\<lambda>buffer.
        Inr \<lparr>Streams = [\<lparr>CodecType = ''video'', DisplayAspectRatio = ''9:16''\<rparr>]\<rparr>),
     run_ffmpeg = (\<lambda>input output fsys. case fsys input of
        None \<Rightarrow> (Some (Error ''exit status 1''), fsys)
      | Some content \<Rightarrow> (None, fsys(output \<mapsto> content))),
     s3_PutObject = (\<lambda>bucket key body contentType. None),
     db_UpdateVideo = (\<lambda>video. None),
     s3_PresignGetObject = (\<lambda>bucket key expires.
        Inr (''https://'' @ bucket @ ''.s3.amazonaws.com/'' @ key @ ''?X-Amz-Signature=5f'')),
     rand_Read = [1, 2, 3, 4, 5, 6, 7, 8, 9, 10, 11, 12, 13, 14, 15, 16,
                  17, 18, 19, 20, 21, 22, 23, 24, 25, 26, 27, 28, 29, 30, 31, 32],
     getAssetPath = (\<lambda>arg. ''AQID.mp4''),
     mediaTypeToExt = (\<lambda>mediaType. ''mp4'')\<rparr>"

text \<open>The copy of the upload stops after two bytes with an error.\<close>

definition env_copy_fails :: env where
  "env_copy_fails = env0\<lparr>io_Copy := (\<lambda>src. (2, Some (Error ''unexpected EOF'')))\<rparr>"

text \<open>The probe exits with an error.\<close>

definition env_probe_fails :: env where
  "env_probe_fails = env0\<lparr>run_ffprobe := (\<lambda>fsys path. Inl (Error ''exit status 1''))\<rparr>"


text \<open>The token names the user 8, who does not own the record 1.\<close>

definition req_other_user :: request where
  "req_other_user = req0\<lparr>RequestHeader := [(''Authorization'', ''Bearer t8'')]\<rparr>"

text \<open>The part is declared as \<^verbatim>\<open>image/png\<close>.\<close>

definition env_png :: env where
  "env_png = env0\<lparr>ParseMultipartForm := (\<lambda>r maxMemory.
     (None, r\<lparr>MultipartForm :=
        Some [(''video'', Body r, \<lparr>Header = [(''Content-Type'', ''image/png'')]\<rparr>)]\<rparr>))\<rparr>"

text \<open>The body is malformed: the parse returns an error and sets no form.\<close>

definition env_malformed :: env where
  "env_malformed = env0\<lparr>ParseMultipartForm := (\<lambda>r maxMemory.
     (Some (Error ''multipart: NextPart: EOF''), r))\<rparr>"


text \<open>
  Two uploads in a row to the record 1 under the revision with random keys, the second
  with another draw of the random source.
\<close>

definition env1 :: env where
  "env1 = env0\<lparr>rand_Read :=
     [255, 255, 255, 255, 255, 255, 255, 255, 255, 255, 255, 255, 255, 255, 255, 255,
      255, 255, 255, 255, 255, 255, 255, 255, 255, 255, 255, 255, 255, 255, 255, 255]\<rparr>"

definition run1 :: "response \<times> world" where
  "run1 = handlerUploadVideo_direct env0 cfg0 req0 world0"

definition run2 :: "response \<times> world" where
  "run2 = handlerUploadVideo_direct env1 cfg0 req0 (snd run1)"


section \<open>Classification\<close>

lemma rangeStreams_known:
  "rangeStreams ss =
     (case firstKnownVideoStream ss of None \<Rightarrow> ''other'' | Some s \<Rightarrow> DisplayAspectRatio s)"
  by (induction ss) auto

lemma firstKnownVideoStream_Some:
  "firstKnownVideoStream ss = Some s \<Longrightarrow>
     CodecType s = ''video'' \<and> (DisplayAspectRatio s = ''16:9'' \<or> DisplayAspectRatio s = ''9:16'')"
  by (induction ss) (auto split: if_splits)

text \<open>
  C2, as stated, fails: with two video streams, the first of ratio 4:3 and the second of
  ratio 16:9, the first video stream would give other, and the code gives landscape.
\<close>

theorem classify_first_video_counterexample:
  "classify_spec \<lparr>Streams =
      [\<lparr>CodecType = ''video'', DisplayAspectRatio = ''4:3''\<rparr>,
       \<lparr>CodecType = ''video'', DisplayAspectRatio = ''16:9''\<rparr>]\<rparr> = ''other''
   \<and> classify \<lparr>Streams =
      [\<lparr>CodecType = ''video'', DisplayAspectRatio = ''4:3''\<rparr>,
       \<lparr>CodecType = ''video'', DisplayAspectRatio = ''16:9''\<rparr>]\<rparr> = ''landscape''"
  by (simp add: classify_spec_def classify_def orientation_def)

text \<open>
  C2, amended: the classification is decided by the first stream whose codec type is
  "video" and whose display aspect ratio is exactly "16:9" or "9:16": landscape for
  "16:9", portrait for "9:16"; it is other when there is no such stream, that is when no
  video stream exists or every video stream has another ratio (such as "1.78").
\<close>

theorem classify_first_known_video:
  "classify meta =
     (case firstKnownVideoStream (Streams meta) of
        None \<Rightarrow> ''other''
      | Some s \<Rightarrow>
          if DisplayAspectRatio s = ''16:9'' then ''landscape''
          else if DisplayAspectRatio s = ''9:16'' then ''portrait''
          else ''other'')"
proof (cases "firstKnownVideoStream (Streams meta)")
  case None
  then show ?thesis
    by (simp add: classify_def rangeStreams_known orientation_def)
next
  case (Some s)
  from firstKnownVideoStream_Some [OF Some] Some show ?thesis
    by (auto simp: classify_def rangeStreams_known orientation_def)
qed

theorem classify_first_known_video_witness:
  "classify \<lparr>Streams =
      [\<lparr>CodecType = ''audio'', DisplayAspectRatio = ''16:9''\<rparr>,
       \<lparr>CodecType = ''video'', DisplayAspectRatio = ''1.78''\<rparr>,
       \<lparr>CodecType = ''video'', DisplayAspectRatio = ''9:16''\<rparr>]\<rparr> = ''portrait''"
  using classify_first_known_video
    [of "\<lparr>Streams =
      [\<lparr>CodecType = ''audio'', DisplayAspectRatio = ''16:9''\<rparr>,
       \<lparr>CodecType = ''video'', DisplayAspectRatio = ''1.78''\<rparr>,
       \<lparr>CodecType = ''video'', DisplayAspectRatio = ''9:16''\<rparr>]\<rparr>"]
  by simp

section \<open>Evaluation of the handler\<close>

lemmas scenario_defs = cfg0_def video0_def world0_def req0_def env0_def
lemmas handler_defs = handlerUploadVideo_def validateOwnership_def GetVideo_def
  handlerUploadVideo_accepted_def handlerUploadVideo_probed_def handlerUploadVideo_processed_def
  processVideoForFastStart_def getVideoAspectRatio_def CreateTemp_def Copy_def os_Stat_def
  os_Open_def PutObject_def UpdateVideo_def deferring_def Header_Get_def orientation_def

lemma deferring_simps:
  "fst (deferring d rest) = fst rest"
  "fs (snd (deferring (DeferClose n) rest)) = fs (snd rest)"
  "fs (snd (deferring DeferRemoveAll rest)) = fs (snd rest)"
  "fs (snd (deferring (DeferRemove n) rest)) = (fs (snd rest))(n := None)"
  "s3 (snd (deferring d rest)) = s3 (snd rest)"
  "db (snd (deferring d rest)) = db (snd rest)"
  by (cases d; simp add: deferring_def)+

lemma events_deferring:
  "events (snd (deferring (DeferClose n) rest)) = events (snd rest) @ [EvClose n]"
  "events (snd (deferring DeferRemoveAll rest)) = events (snd rest) @ [EvRemoveAll]"
  "events (snd (deferring (DeferRemove n) rest)) = events (snd rest) @ [EvRemove n]"
  by (simp_all add: deferring_def)

section \<open>Cleanup of the staged file\<close>

text \<open>
  C1 asks that the staged file be removed on every exit, the removal being scheduled at
  the creation of the file. In \<^verbatim>\<open>handler_upload_video.go\<close> the removal is deferred on
  line 151, after the copy and after the probe. When the copy fails after two bytes the
  handler answers 500 and the temporary file is still there, holding the two bytes; when
  the probe fails the handler answers 500 and the file is still there, holding the
  upload. In both runs no removal of the file was called.
\<close>

theorem staged_file_left_after_failed_copy_or_probe:
  "fst (handlerUploadVideo env_copy_fails cfg0 req0 world0)
     = respondWithError 500 ''Error when writing temp video file''
   \<and> fs (snd (handlerUploadVideo env_copy_fails cfg0 req0 world0)) ''/tmp/tubely-upload.mp442''
     = Some [1, 2]
   \<and> events (snd (handlerUploadVideo env_copy_fails cfg0 req0 world0))
     = [EvCreateTemp ''/tmp/tubely-upload.mp442'', EvRemoveAll, EvClose ''uploadedVideo'']
   \<and> fst (handlerUploadVideo env_probe_fails cfg0 req0 world0)
     = respondWithError 500 ''Error when fetching video ratio''
   \<and> fs (snd (handlerUploadVideo env_probe_fails cfg0 req0 world0)) ''/tmp/tubely-upload.mp442''
     = Some [1, 2, 3]
   \<and> events (snd (handlerUploadVideo env_probe_fails cfg0 req0 world0))
     = [EvCreateTemp ''/tmp/tubely-upload.mp442'', EvRemoveAll, EvClose ''uploadedVideo'']"
  by (simp add: scenario_defs env_copy_fails_def env_probe_fails_def handler_defs Let_def)

section \<open>Remux\<close>

text \<open>
  C3: \<^verbatim>\<open>processVideoForFastStart\<close> returns a path and no error if and only if the remux
  process reported success and the output file exists afterwards with a size other than
  zero; the path it returns is the input path with \<^verbatim>\<open>".processing"\<close> appended.
\<close>

theorem processVideoForFastStart_succeeds_iff:
  "fst (processVideoForFastStart e filepath w) = Inr out \<longleftrightarrow>
     fst (run_ffmpeg e filepath (filepath @ ''.processing'') (fs w)) = None \<and>
     (\<exists>content. snd (run_ffmpeg e filepath (filepath @ ''.processing'') (fs w))
                    (filepath @ ''.processing'') = Some content \<and> content \<noteq> []) \<and>
     out = filepath @ ''.processing''"
  by (auto simp add: processVideoForFastStart_def os_Stat_def Let_def
      split: prod.splits option.splits sum.splits)

theorem processVideoForFastStart_succeeds_iff_witness:
  "fst (processVideoForFastStart env0 ''/tmp/in''
          (world0\<lparr>fs := [''/tmp/in'' \<mapsto> [1, 2, 3]]\<rparr>)) = Inr ''/tmp/in.processing''"
  using processVideoForFastStart_succeeds_iff
    [of env0 "''/tmp/in''" "world0\<lparr>fs := [''/tmp/in'' \<mapsto> [1, 2, 3]]\<rparr>" "''/tmp/in.processing''"]
  by (simp add: scenario_defs)

section \<open>Rejections ahead of staging\<close>

text \<open>
  C7: when the record fetched for the identifier belongs to another user than the one
  the token names, the handler answers 401 and leaves the world as it was: no temporary
  file, no upload to the object store, no write to the metadata store, no outside call
  at all.
\<close>

theorem ownership_violation_no_effect:
  assumes "uuid_Parse e (PathValue r ''videoID'') = Inr videoID"
    and "auth_GetBearerToken e (RequestHeader r) = Inr token"
    and "auth_ValidateJWT e token (jwtSecret cfg) = Inr userID"
    and "db w videoID = Some video"
    and "UserID video \<noteq> userID"
  shows "handlerUploadVideo e cfg r w =
     (respondWithError 401 ''User is not the owner of the video'', w)"
  using assms
  by (simp add: handlerUploadVideo_def validateOwnership_def GetVideo_def)

theorem ownership_violation_no_effect_witness:
  "handlerUploadVideo env0 cfg0 req_other_user world0 =
     (respondWithError 401 ''User is not the owner of the video'', world0)"
  using ownership_violation_no_effect [of env0 req_other_user 1 "''t8''" cfg0 8 world0 video0]
  by (simp add: scenario_defs req_other_user_def)

lemma accepted_rejects:
  assumes "mime_ParseMediaType e (Header_Get (Header header) ''Content-Type'') \<noteq> Inr ''video/mp4''"
  shows "(\<exists>msg. fst (handlerUploadVideo_accepted e cfg video uploadedVideo header w)
            = respondWithError 400 msg)
    \<and> snd (handlerUploadVideo_accepted e cfg video uploadedVideo header w) = w"
  using assms
  by (auto simp add: handlerUploadVideo_accepted_def split: sum.splits)

lemma validateOwnership_Inl:
  "validateOwnership e cfg r w = Inl resp \<Longrightarrow> resp \<noteq> respondWithJSON 200 v"
  by (auto simp add: validateOwnership_def split: sum.splits if_splits)

lemma validateOwnership_Inl_code:
  "validateOwnership e cfg r w = Inl resp \<Longrightarrow>
     \<exists>code msg. resp = respondWithError code msg \<and> (code = 400 \<or> code = 401)"
  by (auto simp add: validateOwnership_def split: sum.splits if_splits)

text \<open>
  C4: take a request whose part \<^verbatim>\<open>"video"\<close> declares a content type that does not parse
  to \<^verbatim>\<open>"video/mp4"\<close>: the header is absent and the empty string is refused, or the value
  does not parse, or it parses to another media type. The handler answers with an error
  and has created no temporary file: the file system, the object store and the metadata
  store are as before, and the only calls made are the two deferred ones on the
  multipart form. When the request passed the checks of the identifier, the token and
  the owner, the answer is 400; otherwise it is the 400 or 401 of those checks.
\<close>

theorem wrong_content_type_rejected_before_staging:
  assumes "FormFile e (snd (ParseMultipartForm e r (push_bit 30 1))) ''video''
           = Inr (uploadedVideo, header)"
    and "mime_ParseMediaType e (Header_Get (Header header) ''Content-Type'') \<noteq> Inr ''video/mp4''"
  shows "(\<exists>code msg. fst (handlerUploadVideo e cfg r w) = respondWithError code msg
            \<and> (code = 400 \<or> code = 401)
            \<and> ((\<exists>video. validateOwnership e cfg r w = Inr video) \<longrightarrow> code = 400))
    \<and> fs (snd (handlerUploadVideo e cfg r w)) = fs w
    \<and> s3 (snd (handlerUploadVideo e cfg r w)) = s3 w
    \<and> db (snd (handlerUploadVideo e cfg r w)) = db w
    \<and> set (new_events w (snd (handlerUploadVideo e cfg r w)))
         \<subseteq> {EvRemoveAll, EvClose ''uploadedVideo''}"
proof (cases "validateOwnership e cfg r w")
  case (Inl resp)
  with validateOwnership_Inl_code [OF Inl] show ?thesis
    by (auto simp add: handlerUploadVideo_def new_events_def)
next
  case (Inr video)
  with assms(1) accepted_rejects [OF assms(2), of cfg video uploadedVideo w] show ?thesis
    by (auto simp add: handlerUploadVideo_def Let_def deferring_simps events_deferring
        new_events_def split: prod.splits)
qed

theorem wrong_content_type_rejected_before_staging_witness:
  "(\<exists>code msg. fst (handlerUploadVideo env_png cfg0 req0 world0) = respondWithError code msg
            \<and> (code = 400 \<or> code = 401)
            \<and> ((\<exists>video. validateOwnership env_png cfg0 req0 world0 = Inr video) \<longrightarrow> code = 400))
    \<and> fs (snd (handlerUploadVideo env_png cfg0 req0 world0)) = fs world0
    \<and> s3 (snd (handlerUploadVideo env_png cfg0 req0 world0)) = s3 world0
    \<and> db (snd (handlerUploadVideo env_png cfg0 req0 world0)) = db world0
    \<and> set (new_events world0 (snd (handlerUploadVideo env_png cfg0 req0 world0)))
         \<subseteq> {EvRemoveAll, EvClose ''uploadedVideo''}"
proof (rule wrong_content_type_rejected_before_staging)
  show "FormFile env_png (snd (ParseMultipartForm env_png req0 (push_bit 30 1))) ''video''
          = Inr ([1, 2, 3], \<lparr>Header = [(''Content-Type'', ''image/png'')]\<rparr>)"
    by (simp add: scenario_defs env_png_def)
  show "mime_ParseMediaType env_png
          (Header_Get (Header \<lparr>Header = [(''Content-Type'', ''image/png'')]\<rparr>) ''Content-Type'')
        \<noteq> Inr ''video/mp4''"
    by (simp add: scenario_defs env_png_def Header_Get_def)
qed


lemma parse_result_unused:
  "validateOwnership (e\<lparr>ParseMultipartForm := f\<rparr>) cfg r w = validateOwnership e cfg r w"
  "CreateTemp (e\<lparr>ParseMultipartForm := f\<rparr>) dir pattern w = CreateTemp e dir pattern w"
  "Copy (e\<lparr>ParseMultipartForm := f\<rparr>) name src w = Copy e name src w"
  "getVideoAspectRatio (e\<lparr>ParseMultipartForm := f\<rparr>) fsys path = getVideoAspectRatio e fsys path"
  "processVideoForFastStart (e\<lparr>ParseMultipartForm := f\<rparr>) path w = processVideoForFastStart e path w"
  "PutObject (e\<lparr>ParseMultipartForm := f\<rparr>) bucket key body ct w = PutObject e bucket key body ct w"
  "UpdateVideo (e\<lparr>ParseMultipartForm := f\<rparr>) video w = UpdateVideo e video w"
  by (simp_all add: validateOwnership_def CreateTemp_def Copy_def getVideoAspectRatio_def
      processVideoForFastStart_def PutObject_def UpdateVideo_def
      split: sum.splits prod.splits option.splits)

lemma processed_parse_result_unused:
  "handlerUploadVideo_processed (e\<lparr>ParseMultipartForm := f\<rparr>) cfg video mediaType ratio processed w
     = handlerUploadVideo_processed e cfg video mediaType ratio processed w"
  by (simp add: handlerUploadVideo_processed_def parse_result_unused Let_def
      split: sum.splits prod.splits option.splits)

lemma probed_parse_result_unused:
  "handlerUploadVideo_probed (e\<lparr>ParseMultipartForm := f\<rparr>) cfg video mediaType ratio tmpFile w
     = handlerUploadVideo_probed e cfg video mediaType ratio tmpFile w"
  by (simp add: handlerUploadVideo_probed_def parse_result_unused processed_parse_result_unused
      Let_def split: sum.splits prod.splits option.splits)

lemma accepted_parse_result_unused:
  "handlerUploadVideo_accepted (e\<lparr>ParseMultipartForm := f\<rparr>) cfg video uploadedVideo header w
     = handlerUploadVideo_accepted e cfg video uploadedVideo header w"
  by (simp add: handlerUploadVideo_accepted_def parse_result_unused probed_parse_result_unused
      split: sum.splits prod.splits option.splits)

text \<open>
  C10: what the parse of the multipart form returns is dropped. Put any other error, or
  none, in the place of the one the parse returned: the handler does the same. For a
  request that passed the ownership check the handler does not answer at the parse: it
  goes on to fetch the field \<^verbatim>\<open>"video"\<close> from the request as the parse left it, and it
  is the failure of that fetch that is answered, with 400 and the world as it was; when
  the fetch succeeds the handler carries on with the upload.
\<close>

theorem parse_error_dropped:
  assumes "validateOwnership e cfg r w = Inr video"
    and "ParseMultipartForm e r (push_bit 30 1) = (perr, r')"
  shows "handlerUploadVideo
           (e\<lparr>ParseMultipartForm := (\<lambda>q n. (anyerr, snd (ParseMultipartForm e q n)))\<rparr>) cfg r w
         = handlerUploadVideo e cfg r w
    \<and> handlerUploadVideo e cfg r w =
       (case FormFile e r' ''video'' of
          Inl err \<Rightarrow> (respondWithError 400 ''Unable to parse form file'', w)
        | Inr (uploadedVideo, header) \<Rightarrow>
            deferring (DeferClose ''uploadedVideo'')
              (deferring DeferRemoveAll
                 (handlerUploadVideo_accepted e cfg video uploadedVideo header w)))"
  using assms
  by (simp add: handlerUploadVideo_def Let_def parse_result_unused accepted_parse_result_unused
      split: sum.splits prod.splits)

theorem parse_error_dropped_witness:
  "handlerUploadVideo env_malformed cfg0 req0 world0 =
     (respondWithError 400 ''Unable to parse form file'', world0)"
  using parse_error_dropped
    [of env_malformed cfg0 req0 world0 video0 "Some (Error ''multipart: NextPart: EOF'')" req0]
  by (simp add: scenario_defs env_malformed_def validateOwnership_def GetVideo_def)


section \<open>The encoding of the random bytes\<close>

lemma distinct_encodeURL: "distinct encodeURL"
  by (simp add: encodeURL_def)

lemma length_encodeURL: "length encodeURL = 64"
  by (simp add: encodeURL_def)

lemma and_3F: "(x :: 64 word) AND 0x3F = take_bit 6 x"
  by (simp add: take_bit_eq_mask mask_eq_exp_minus_1)

lemma and63_lt: "unat ((v::64 word) AND 0x3F) < 64"
proof -
  have "unat (take_bit 6 v) = take_bit 6 (unat v)"
    by (simp add: unsigned_take_bit_eq)
  also have "\<dots> < 2 ^ 6"
    by (rule take_bit_nat_less_exp)
  finally show ?thesis
    by (simp add: and_3F)
qed

lemma encode_inj: "encode (a AND 0x3F) = encode (b AND 0x3F) \<Longrightarrow> a AND 0x3F = b AND 0x3F"
  unfolding encode_def
  using and63_lt[of a] and63_lt[of b] distinct_encodeURL length_encodeURL
  by (simp add: nth_eq_iff_index_eq word_unat_eq_iff)

lemma s2_of_val3: "s2 = ucast (val3 s0 s1 s2)"
  unfolding val3_def
  by (rule bit_word_eqI) (simp add: bit_simps)

lemma s0_of_val3: "s0 = ucast (drop_bit 16 (val3 s0 s1 s2))"
  unfolding val3_def
  by (rule bit_word_eqI) (auto simp add: bit_simps dest: bit_imp_le_length)

lemma s1_of_val3: "s1 = ucast (drop_bit 8 (val3 s0 s1 s2))"
  unfolding val3_def
  by (rule bit_word_eqI) (auto simp add: bit_simps dest: bit_imp_le_length)

lemma sextet_bits:
  fixes v v' :: "64 word"
  assumes "drop_bit k v AND 0x3F = drop_bit k v' AND 0x3F" and "n < 6"
  shows "bit v (k + n) = bit v' (k + n)"
proof -
  from assms(1) have "bit (take_bit 6 (drop_bit k v)) n = bit (take_bit 6 (drop_bit k v')) n"
    by (simp add: and_3F)
  with assms(2) show ?thesis
    by (simp add: bit_simps)
qed

lemma low24_eq:
  fixes v v' :: "64 word"
  assumes a: "drop_bit 18 v AND 0x3F = drop_bit 18 v' AND 0x3F"
    and b: "drop_bit 12 v AND 0x3F = drop_bit 12 v' AND 0x3F"
    and c: "drop_bit 6 v AND 0x3F = drop_bit 6 v' AND 0x3F"
    and d: "v AND 0x3F = v' AND 0x3F"
  shows "take_bit 24 v = take_bit 24 v'"
proof (rule bit_word_eqI)
  fix n
  have "bit v n = bit v' n" if lt: "n < 24"
  proof -
    from d have d': "drop_bit 0 v AND 0x3F = drop_bit 0 v' AND 0x3F" by simp
    consider "n < 6" | "6 \<le> n" "n < 12" | "12 \<le> n" "n < 18" | "18 \<le> n" "n < 24"
      using lt by linarith
    then show ?thesis
    proof cases
      case 1
      with sextet_bits [OF d', of n] show ?thesis by simp
    next
      case 2
      with sextet_bits [OF c, of "n - 6"] show ?thesis by simp
    next
      case 3
      with sextet_bits [OF b, of "n - 12"] show ?thesis by simp
    next
      case 4
      with sextet_bits [OF a, of "n - 18"] show ?thesis by simp
    qed
  qed
  then show "bit (take_bit 24 v) n = bit (take_bit 24 v') n"
    by (auto simp add: bit_simps)
qed

lemma take_bit_val3: "take_bit 24 (val3 s0 s1 s2) = val3 s0 s1 s2"
  unfolding val3_def
  by (rule bit_word_eqI) (auto simp add: bit_simps dest: bit_imp_le_length)

lemma val3_inj:
  assumes "val3 s0 s1 s2 = val3 t0 t1 t2"
  shows "s0 = t0 \<and> s1 = t1 \<and> s2 = t2"
proof -
  have "s0 = ucast (drop_bit 16 (val3 t0 t1 t2))"
    using s0_of_val3 [of s0 s1 s2] assms by simp
  moreover have "s1 = ucast (drop_bit 8 (val3 t0 t1 t2))"
    using s1_of_val3 [of s1 s0 s2] assms by simp
  moreover have "s2 = ucast (val3 t0 t1 t2)"
    using s2_of_val3 [of s2 s0 s1] assms by simp
  ultimately show ?thesis
    using s0_of_val3 [of t0 t1 t2] s1_of_val3 [of t1 t0 t2] s2_of_val3 [of t2 t0 t1]
    by simp
qed


lemma sextets_inj:
  fixes v w :: "64 word"
  assumes "encode (drop_bit 18 v AND 0x3F) = encode (drop_bit 18 w AND 0x3F)"
    and "encode (drop_bit 12 v AND 0x3F) = encode (drop_bit 12 w AND 0x3F)"
    and "encode (drop_bit 6 v AND 0x3F) = encode (drop_bit 6 w AND 0x3F)"
    and "encode (v AND 0x3F) = encode (w AND 0x3F)"
  shows "take_bit 24 v = take_bit 24 w"
  by (intro low24_eq encode_inj assms)

lemma val2_val3: "val2 s0 s1 = val3 s0 s1 0"
  by (simp add: val2_def val3_def)

lemma val1_val3: "val1 s0 = val3 s0 0 0"
  by (simp add: val1_def val3_def)

lemma val3_low_zero: "val3 s0 s1 0 AND 0x3F = 0"
  unfolding val3_def and_3F
  by (rule bit_word_eqI) (auto simp add: bit_simps)

lemma val3_mid_zero: "drop_bit 6 (val3 s0 0 0) AND 0x3F = 0"
  unfolding val3_def and_3F
  by (rule bit_word_eqI) (auto simp add: bit_simps)

lemma group3_inj:
  assumes "encode (drop_bit 18 (val3 s0 s1 s2) AND 0x3F) = encode (drop_bit 18 (val3 t0 t1 t2) AND 0x3F)"
    and "encode (drop_bit 12 (val3 s0 s1 s2) AND 0x3F) = encode (drop_bit 12 (val3 t0 t1 t2) AND 0x3F)"
    and "encode (drop_bit 6 (val3 s0 s1 s2) AND 0x3F) = encode (drop_bit 6 (val3 t0 t1 t2) AND 0x3F)"
    and "encode (val3 s0 s1 s2 AND 0x3F) = encode (val3 t0 t1 t2 AND 0x3F)"
  shows "s0 = t0 \<and> s1 = t1 \<and> s2 = t2"
proof -
  have "take_bit 24 (val3 s0 s1 s2) = take_bit 24 (val3 t0 t1 t2)"
    by (rule sextets_inj) (rule assms)+
  then have "val3 s0 s1 s2 = val3 t0 t1 t2"
    by (simp only: take_bit_val3)
  then show ?thesis by (rule val3_inj)
qed

lemma group2_inj:
  assumes "encode (drop_bit 18 (val2 s0 s1) AND 0x3F) = encode (drop_bit 18 (val2 t0 t1) AND 0x3F)"
    and "encode (drop_bit 12 (val2 s0 s1) AND 0x3F) = encode (drop_bit 12 (val2 t0 t1) AND 0x3F)"
    and "encode (drop_bit 6 (val2 s0 s1) AND 0x3F) = encode (drop_bit 6 (val2 t0 t1) AND 0x3F)"
  shows "s0 = t0 \<and> s1 = t1"
proof -
  have "s0 = t0 \<and> s1 = t1 \<and> (0::byte) = 0"
    by (rule group3_inj) (use assms in \<open>simp_all only: val2_val3 val3_low_zero\<close>)
  then show ?thesis by simp
qed

lemma group1_inj:
  assumes "encode (drop_bit 18 (val1 s0) AND 0x3F) = encode (drop_bit 18 (val1 t0) AND 0x3F)"
    and "encode (drop_bit 12 (val1 s0) AND 0x3F) = encode (drop_bit 12 (val1 t0) AND 0x3F)"
  shows "s0 = t0"
proof -
  have "s0 = t0 \<and> (0::byte) = 0 \<and> (0::byte) = 0"
    by (rule group3_inj) (use assms in \<open>simp_all only: val1_val3 val3_low_zero val3_mid_zero\<close>)
  then show ?thesis by simp
qed


lemma EncodeToString_inj:
  "length xs = length ys \<Longrightarrow> EncodeToString xs = EncodeToString ys \<Longrightarrow> xs = ys"
proof (induction xs arbitrary: ys rule: EncodeToString.induct)
  case (1 s0 s1 s2 rest)
  from 1(2) obtain t0 t1 t2 rest' where ys: "ys = t0 # t1 # t2 # rest'"
    by (auto simp add: length_Suc_conv dest!: sym [of "Suc _" "length _"])
  from 1(3) have "s0 = t0 \<and> s1 = t1 \<and> s2 = t2"
    unfolding ys by (intro group3_inj) (simp_all add: Let_def)
  moreover from 1(3) have "EncodeToString rest = EncodeToString rest'"
    unfolding ys by (simp add: Let_def)
  with 1(2) have "rest = rest'"
    unfolding ys by (intro 1(1)) simp_all
  ultimately show ?case by (simp add: ys)
next
  case (2 s0 s1)
  from 2(1) obtain t0 t1 where ys: "ys = [t0, t1]"
    by (auto simp add: length_Suc_conv dest!: sym [of "Suc _" "length _"])
  from 2(2) have "s0 = t0 \<and> s1 = t1"
    unfolding ys by (intro group2_inj) (simp_all add: Let_def)
  then show ?case by (simp add: ys)
next
  case (3 s0)
  from 3(1) obtain t0 where ys: "ys = [t0]"
    by (auto simp add: length_Suc_conv dest!: sym [of "Suc _" "length _"])
  from 3(2) have "s0 = t0"
    unfolding ys by (intro group1_inj) (simp_all add: Let_def)
  then show ?case by (simp add: ys)
next
  case 4
  then show ?case by simp
qed

lemma length_EncodeToString:
  "length (EncodeToString src) = (length src * 8 + 5) div 6"
  by (induction src rule: EncodeToString.induct) (simp_all add: Let_def)



lemma length_rand_Read_into: "length (rand_Read_into e buf) = length buf"
  by (simp add: rand_Read_into_def)

section \<open>Runs of the revision with random keys\<close>

lemmas direct_defs = handlerUploadVideo_direct_def validateOwnership_def GetVideo_def
  handlerUploadVideo_direct_accepted_def handlerUploadVideo_direct_staged_def
  getVideoAspectRatio_def CreateTemp_def Copy_def PutObject_def UpdateVideo_def deferring_def
  Header_Get_def orientation_def ReadAll_def rand_Read_into_def
lemmas b64_eval = Let_def val3_def val2_def encode_def encodeURL_def

lemma orientation_rangeStreams:
  "orientation (rangeStreams ss) \<in> {''landscape'', ''portrait'', ''other''}"
  by (induction ss) (auto simp add: orientation_def)

lemma direct_ok_I:
  assumes "events (snd res) = events w @ new"
    and "\<And>v. fst res = respondWithJSON 200 v \<Longrightarrow>
           \<exists>meta. P meta \<and>
              v = video\<lparr>VideoURL := Some (''https://'' @ s3Bucket cfg @ ''.s3.'' @ s3Region cfg
                    @ ''.amazonaws.com/'' @ classify meta @ ''/''
                    @ EncodeToString (rand_Read_into e (replicate 32 0)) @ ''.mp4'')\<rparr> \<and>
              db (snd res) = (db w)(ID video \<mapsto> v) \<and>
              filter putEvent new =
                [EvPutObject (s3Bucket cfg)
                   (classify meta @ ''/'' @ EncodeToString (rand_Read_into e (replicate 32 0))
                      @ ''.mp4'')
                   ct]"
  shows "direct_ok e cfg video ct P w res"
  unfolding direct_ok_def using assms by blast

lemma direct_ok_D:
  assumes "direct_ok e cfg video ct P w res"
  shows "\<exists>new. events (snd res) = events w @ new \<and>
    (\<forall>v. fst res = respondWithJSON 200 v \<longrightarrow>
           (\<exists>meta. P meta \<and>
              v = video\<lparr>VideoURL := Some (''https://'' @ s3Bucket cfg @ ''.s3.'' @ s3Region cfg
                    @ ''.amazonaws.com/'' @ classify meta @ ''/''
                    @ EncodeToString (rand_Read_into e (replicate 32 0)) @ ''.mp4'')\<rparr> \<and>
              db (snd res) = (db w)(ID video \<mapsto> v) \<and>
              filter putEvent new =
                [EvPutObject (s3Bucket cfg)
                   (classify meta @ ''/'' @ EncodeToString (rand_Read_into e (replicate 32 0))
                      @ ''.mp4'')
                   ct]))"
  using assms unfolding direct_ok_def .

lemma direct_ok_staged:
  "direct_ok e cfg video mediaType
     (probed e ((fs w)(tmpFile \<mapsto> take (fst (io_Copy e uploadedVideo)) uploadedVideo)) tmpFile) w
     (handlerUploadVideo_direct_staged e cfg video mediaType uploadedVideo tmpFile w)"
proof (cases "io_Copy e uploadedVideo")
  case (Pair written cerr)
  let ?fsys = "(fs w)(tmpFile \<mapsto> take written uploadedVideo)"
  let ?w = "w\<lparr>fs := ?fsys\<rparr>"
  have err: "direct_ok e cfg video mediaType P w (respondWithError c m, w1)"
    if "events w1 = events w @ new" for P c m w1 new
    unfolding direct_ok_def using that by auto
  show ?thesis
  proof (cases cerr)
    case (Some cerr')
    with Pair show ?thesis
      by (simp add: handlerUploadVideo_direct_staged_def Copy_def err [where new = "[]"])
  next
    case None
    show ?thesis
    proof (cases "run_ffprobe e ?fsys tmpFile")
      case (Inl perr)
      with Pair None show ?thesis
        by (simp add: handlerUploadVideo_direct_staged_def Copy_def getVideoAspectRatio_def
            err [where new = "[]"])
    next
      case (Inr buffer)
      show ?thesis
      proof (cases "json_Unmarshal e buffer")
        case (Inl jerr)
        with Pair None Inr show ?thesis
          by (simp add: handlerUploadVideo_direct_staged_def Copy_def getVideoAspectRatio_def
              err [where new = "[]"])
      next
        case meta: (Inr meta)
        have P: "probed e ((fs w)(tmpFile \<mapsto> take (fst (io_Copy e uploadedVideo)) uploadedVideo))
            tmpFile meta"
          unfolding probed_def using Pair Inr meta by auto
        show ?thesis
          using Pair None Inr meta P
          unfolding direct_ok_def handlerUploadVideo_direct_staged_def Copy_def
            getVideoAspectRatio_def PutObject_def UpdateVideo_def Let_def classify_def
          by (auto split: option.splits intro!: exI [of _ meta])
      qed
    qed
  qed
qed

lemma direct_ok_mono:
  assumes "direct_ok e cfg video ct P w res" and "\<And>meta. P meta \<Longrightarrow> Q meta"
  shows "direct_ok e cfg video ct Q w res"
  using assms unfolding direct_ok_def by blast

lemma direct_ok_deferring:
  assumes "direct_ok e cfg video ct P w res"
  shows "direct_ok e cfg video ct P w (deferring d res)"
proof -
  obtain ev' where d: "events (runDeferred d (snd res)) = events (snd res) @ [ev']"
      "\<not> putEvent ev'" "db (runDeferred d (snd res)) = db (snd res)"
    by (cases d) simp_all
  from assms obtain new where new: "events (snd res) = events w @ new"
    and ok: "\<forall>v. fst res = respondWithJSON 200 v \<longrightarrow>
           (\<exists>meta. P meta \<and>
              v = video\<lparr>VideoURL := Some (''https://'' @ s3Bucket cfg @ ''.s3.'' @ s3Region cfg
                    @ ''.amazonaws.com/'' @ classify meta @ ''/''
                    @ EncodeToString (rand_Read_into e (replicate 32 0)) @ ''.mp4'')\<rparr> \<and>
              db (snd res) = (db w)(ID video \<mapsto> v) \<and>
              filter putEvent new =
                [EvPutObject (s3Bucket cfg)
                   (classify meta @ ''/'' @ EncodeToString (rand_Read_into e (replicate 32 0))
                      @ ''.mp4'')
                   ct])"
    by (blast dest: direct_ok_D)
  show ?thesis
  proof (rule direct_ok_I [where new = "new @ [ev']"])
    show "events (snd (deferring d res)) = events w @ new @ [ev']"
      by (simp add: deferring_def d new)
  next
    fix v
    assume "fst (deferring d res) = respondWithJSON 200 v"
    then have "fst res = respondWithJSON 200 v"
      by (simp add: deferring_def)
    from ok [rule_format, OF this] show "\<exists>meta. P meta \<and>
              v = video\<lparr>VideoURL := Some (''https://'' @ s3Bucket cfg @ ''.s3.'' @ s3Region cfg
                    @ ''.amazonaws.com/'' @ classify meta @ ''/''
                    @ EncodeToString (rand_Read_into e (replicate 32 0)) @ ''.mp4'')\<rparr> \<and>
              db (snd (deferring d res)) = (db w)(ID video \<mapsto> v) \<and>
              filter putEvent (new @ [ev']) =
                [EvPutObject (s3Bucket cfg)
                   (classify meta @ ''/'' @ EncodeToString (rand_Read_into e (replicate 32 0))
                      @ ''.mp4'')
                   ct]"
      by (simp add: deferring_def d)
  qed
qed

lemma direct_ok_error:
  assumes "\<And>v. resp \<noteq> respondWithJSON 200 v" and "events w1 = events w @ new"
  shows "direct_ok e cfg video ct P w (resp, w1)"
  unfolding direct_ok_def using assms by auto

lemma direct_ok_shift:
  assumes "direct_ok e cfg video ct P w1 res" and "events w1 = events w @ pre"
    and "filter putEvent pre = []" and "db w1 = db w"
  shows "direct_ok e cfg video ct P w res"
proof -
  from assms(1) obtain new where new: "events (snd res) = events w1 @ new"
    and ok: "\<forall>v. fst res = respondWithJSON 200 v \<longrightarrow>
           (\<exists>meta. P meta \<and>
              v = video\<lparr>VideoURL := Some (''https://'' @ s3Bucket cfg @ ''.s3.'' @ s3Region cfg
                    @ ''.amazonaws.com/'' @ classify meta @ ''/''
                    @ EncodeToString (rand_Read_into e (replicate 32 0)) @ ''.mp4'')\<rparr> \<and>
              db (snd res) = (db w1)(ID video \<mapsto> v) \<and>
              filter putEvent new =
                [EvPutObject (s3Bucket cfg)
                   (classify meta @ ''/'' @ EncodeToString (rand_Read_into e (replicate 32 0))
                      @ ''.mp4'')
                   ct])"
    by (blast dest: direct_ok_D)
  show ?thesis
  proof (rule direct_ok_I [where new = "pre @ new"])
    show "events (snd res) = events w @ pre @ new"
      by (simp add: new assms(2))
  next
    fix v
    assume "fst res = respondWithJSON 200 v"
    from ok [rule_format, OF this] show "\<exists>meta. P meta \<and>
              v = video\<lparr>VideoURL := Some (''https://'' @ s3Bucket cfg @ ''.s3.'' @ s3Region cfg
                    @ ''.amazonaws.com/'' @ classify meta @ ''/''
                    @ EncodeToString (rand_Read_into e (replicate 32 0)) @ ''.mp4'')\<rparr> \<and>
              db (snd res) = (db w)(ID video \<mapsto> v) \<and>
              filter putEvent (pre @ new) =
                [EvPutObject (s3Bucket cfg)
                   (classify meta @ ''/'' @ EncodeToString (rand_Read_into e (replicate 32 0))
                      @ ''.mp4'')
                   ct]"
      by (simp add: assms(3,4))
  qed
qed

lemma direct_ok_accepted:
  "direct_ok e cfg video ''video/mp4'' (staged_probe e (fs w) uploadedVideo) w
     (handlerUploadVideo_direct_accepted e cfg video uploadedVideo header w)"
proof -
  have err: "direct_ok e cfg video ''video/mp4'' P w (respondWithError c m, w)" for P c m
    by (rule direct_ok_error [where new = "[]"]) simp_all
  have rest: "direct_ok e cfg video ''video/mp4'' (staged_probe e (fs w) uploadedVideo) w
      (deferring (DeferRemove n)
         (deferring (DeferClose n)
            (handlerUploadVideo_direct_staged e cfg video ''video/mp4'' uploadedVideo n
               (w\<lparr>fs := (fs w)(n \<mapsto> []), events := events w @ [EvCreateTemp n]\<rparr>))))"
    if n: "os_CreateTemp e [] ''tubely-upload.mp4'' (fs w) = Inr n" for n
  proof -
    let ?w1 = "w\<lparr>fs := (fs w)(n \<mapsto> []), events := events w @ [EvCreateTemp n]\<rparr>"
    have "direct_ok e cfg video ''video/mp4''
        (probed e ((fs ?w1)(n \<mapsto> take (fst (io_Copy e uploadedVideo)) uploadedVideo)) n) ?w1
        (handlerUploadVideo_direct_staged e cfg video ''video/mp4'' uploadedVideo n ?w1)"
      by (rule direct_ok_staged)
    then have "direct_ok e cfg video ''video/mp4'' (staged_probe e (fs w) uploadedVideo) ?w1
        (handlerUploadVideo_direct_staged e cfg video ''video/mp4'' uploadedVideo n ?w1)"
      by (rule direct_ok_mono) (use n in \<open>auto simp add: staged_probe_def\<close>)
    then have "direct_ok e cfg video ''video/mp4'' (staged_probe e (fs w) uploadedVideo) ?w1
        (deferring (DeferRemove n)
           (deferring (DeferClose n)
              (handlerUploadVideo_direct_staged e cfg video ''video/mp4'' uploadedVideo n ?w1)))"
      by (intro direct_ok_deferring)
    then show ?thesis
      by (rule direct_ok_shift [where pre = "[EvCreateTemp n]"]) simp_all
  qed
  show ?thesis
    unfolding handlerUploadVideo_direct_accepted_def CreateTemp_def
    by (auto simp add: err rest split: sum.splits prod.splits option.splits)
qed

lemma direct_ok_handler:
  assumes "validateOwnership e cfg r w = Inr video"
  shows "direct_ok e cfg video ''video/mp4'' (request_probe e r (fs w)) w
     (handlerUploadVideo_direct e cfg r w)"
proof (cases "ParseMultipartForm e r (push_bit 30 1)")
  case (Pair perr r')
  show ?thesis
  proof (cases "FormFile e r' ''video''")
    case (Inl ferr)
    with assms Pair show ?thesis
      by (simp add: handlerUploadVideo_direct_def Let_def direct_ok_error [where new = "[]"])
  next
    case (Inr part)
    obtain uploadedVideo header where part: "part = (uploadedVideo, header)"
      by (cases part)
    have "direct_ok e cfg video ''video/mp4'' (staged_probe e (fs w) uploadedVideo) w
        (handlerUploadVideo_direct_accepted e cfg video uploadedVideo header w)"
      by (rule direct_ok_accepted)
    then have "direct_ok e cfg video ''video/mp4'' (request_probe e r (fs w)) w
        (handlerUploadVideo_direct_accepted e cfg video uploadedVideo header w)"
      by (rule direct_ok_mono) (use Pair Inr part in \<open>auto simp add: request_probe_def\<close>)
    then have "direct_ok e cfg video ''video/mp4'' (request_probe e r (fs w)) w
        (deferring (DeferClose ''uploadedVideo'')
           (deferring DeferRemoveAll
              (handlerUploadVideo_direct_accepted e cfg video uploadedVideo header w)))"
      by (intro direct_ok_deferring)
    with assms Pair Inr part show ?thesis
      by (simp add: handlerUploadVideo_direct_def Let_def)
  qed
qed

lemma direct_success_probe:
  assumes "handlerUploadVideo_direct e cfg r w = (respondWithJSON 200 v, w')"
  shows "\<exists>video meta. validateOwnership e cfg r w = Inr video \<and>
     request_probe e r (fs w) meta \<and>
     v = video\<lparr>VideoURL := Some (''https://'' @ s3Bucket cfg @ ''.s3.'' @ s3Region cfg
                    @ ''.amazonaws.com/'' @ classify meta @ ''/''
                    @ EncodeToString (rand_Read_into e (replicate 32 0)) @ ''.mp4'')\<rparr> \<and>
     db w' = (db w)(ID video \<mapsto> v) \<and>
     events w' = events w @ new_events w w' \<and>
     filter putEvent (new_events w w') =
       [EvPutObject (s3Bucket cfg)
          (classify meta @ ''/'' @ EncodeToString (rand_Read_into e (replicate 32 0)) @ ''.mp4'')
          ''video/mp4'']"
proof (cases "validateOwnership e cfg r w")
  case (Inl resp)
  with assms validateOwnership_Inl [OF Inl, of v] show ?thesis
    by (simp add: handlerUploadVideo_direct_def)
next
  case (Inr video)
  from direct_ok_handler [OF Inr] obtain new where
    new: "events (snd (handlerUploadVideo_direct e cfg r w)) = events w @ new" and
    ok: "\<forall>u. fst (handlerUploadVideo_direct e cfg r w) = respondWithJSON 200 u \<longrightarrow>
           (\<exists>meta. request_probe e r (fs w) meta \<and>
              u = video\<lparr>VideoURL := Some (''https://'' @ s3Bucket cfg @ ''.s3.'' @ s3Region cfg
                    @ ''.amazonaws.com/'' @ classify meta @ ''/''
                    @ EncodeToString (rand_Read_into e (replicate 32 0)) @ ''.mp4'')\<rparr> \<and>
              db (snd (handlerUploadVideo_direct e cfg r w)) = (db w)(ID video \<mapsto> u) \<and>
              filter putEvent new =
                [EvPutObject (s3Bucket cfg)
                   (classify meta @ ''/'' @ EncodeToString (rand_Read_into e (replicate 32 0))
                      @ ''.mp4'')
                   ''video/mp4''])"
    by (blast dest: direct_ok_D)
  from assms have "fst (handlerUploadVideo_direct e cfg r w) = respondWithJSON 200 v"
    by simp
  from ok [rule_format, OF this] assms obtain meta where
    meta: "request_probe e r (fs w) meta"
      "v = video\<lparr>VideoURL := Some (''https://'' @ s3Bucket cfg @ ''.s3.'' @ s3Region cfg
                    @ ''.amazonaws.com/'' @ classify meta @ ''/''
                    @ EncodeToString (rand_Read_into e (replicate 32 0)) @ ''.mp4'')\<rparr>"
      "db w' = (db w)(ID video \<mapsto> v)"
      "filter putEvent new =
                [EvPutObject (s3Bucket cfg)
                   (classify meta @ ''/'' @ EncodeToString (rand_Read_into e (replicate 32 0))
                      @ ''.mp4'')
                   ''video/mp4'']"
    by auto
  from new assms have new': "events w' = events w @ new"
    by simp
  then have "new_events w w' = new"
    by (simp add: new_events_def)
  with Inr meta new' show ?thesis
    by (intro exI [of _ video] exI [of _ meta]) simp
qed

lemma direct_success:
  assumes "handlerUploadVideo_direct e cfg r w = (respondWithJSON 200 v, w')"
  shows "\<exists>video ratio. validateOwnership e cfg r w = Inr video \<and>
     ratio \<in> {''landscape'', ''portrait'', ''other''} \<and>
     v = video\<lparr>VideoURL := Some (''https://'' @ s3Bucket cfg @ ''.s3.'' @ s3Region cfg
                    @ ''.amazonaws.com/'' @ ratio @ ''/''
                    @ EncodeToString (rand_Read_into e (replicate 32 0)) @ ''.mp4'')\<rparr> \<and>
     db w' = (db w)(ID video \<mapsto> v) \<and>
     events w' = events w @ new_events w w' \<and>
     filter putEvent (new_events w w') =
       [EvPutObject (s3Bucket cfg)
          (ratio @ ''/'' @ EncodeToString (rand_Read_into e (replicate 32 0)) @ ''.mp4'')
          ''video/mp4'']"
proof -
  from direct_success_probe [OF assms] obtain video meta where
    *: "validateOwnership e cfg r w = Inr video"
      "v = video\<lparr>VideoURL := Some (''https://'' @ s3Bucket cfg @ ''.s3.'' @ s3Region cfg
                    @ ''.amazonaws.com/'' @ classify meta @ ''/''
                    @ EncodeToString (rand_Read_into e (replicate 32 0)) @ ''.mp4'')\<rparr>"
      "db w' = (db w)(ID video \<mapsto> v)"
      "events w' = events w @ new_events w w'"
      "filter putEvent (new_events w w') =
       [EvPutObject (s3Bucket cfg)
          (classify meta @ ''/'' @ EncodeToString (rand_Read_into e (replicate 32 0)) @ ''.mp4'')
          ''video/mp4'']"
    by blast
  have "classify meta \<in> {''landscape'', ''portrait'', ''other''}"
    unfolding classify_def by (rule orientation_rangeStreams)
  with * show ?thesis
    by (intro exI [of _ video] exI [of _ "classify meta"]) simp
qed


lemma run1_eval:
  "fst run1 =
     respondWithJSON 200 (video0\<lparr>VideoURL := Some
       ''https://tubely.s3.eu-west-3.amazonaws.com/portrait/AQIDBAUGBwgJCgsMDQ4PEBESExQVFhcYGRobHB0eHyA.mp4''\<rparr>)"
  unfolding run1_def
  by (simp add: direct_defs scenario_defs b64_eval)

lemma run2_eval:
  "fst run2 =
     respondWithJSON 200 (video0\<lparr>VideoURL := Some
       ''https://tubely.s3.eu-west-3.amazonaws.com/portrait/__________________________________________8.mp4''\<rparr>)"
  unfolding run2_def run1_def
  by (simp add: direct_defs scenario_defs env1_def b64_eval)


section \<open>The storage key\<close>



text \<open>
  C8: take two uploads in a row that both answer 200, for records of the same
  identifier, the 32 random bytes of the first differing from those of the second. Then
  the encodings of the two draws differ, the keys of the two uploaded objects differ,
  and after each upload the metadata store holds, for that identifier, the record whose
  reference is the URL of the key of that upload: the second upload has replaced the
  reference of the first by another one.
\<close>

theorem distinct_draws_distinct_keys:
  assumes "handlerUploadVideo_direct e1 cfg r1 w0 = (respondWithJSON 200 v1, w1)"
    and "handlerUploadVideo_direct e2 cfg r2 w1 = (respondWithJSON 200 v2, w2)"
    and "ID v1 = ID v2"
    and "rand_Read_into e1 (replicate 32 0) \<noteq> rand_Read_into e2 (replicate 32 0)"
  shows "\<exists>key1 key2.
     filter putEvent (new_events w0 w1) = [EvPutObject (s3Bucket cfg) key1 ''video/mp4''] \<and>
     filter putEvent (new_events w1 w2) = [EvPutObject (s3Bucket cfg) key2 ''video/mp4''] \<and>
     key1 \<noteq> key2 \<and>
     EncodeToString (rand_Read_into e1 (replicate 32 0))
       \<noteq> EncodeToString (rand_Read_into e2 (replicate 32 0)) \<and>
     db w1 (ID v1) = Some v1 \<and>
     VideoURL v1 = Some (''https://'' @ s3Bucket cfg @ ''.s3.'' @ s3Region cfg @ ''.amazonaws.com/'' @ key1) \<and>
     db w2 (ID v1) = Some v2 \<and>
     VideoURL v2 = Some (''https://'' @ s3Bucket cfg @ ''.s3.'' @ s3Region cfg @ ''.amazonaws.com/'' @ key2) \<and>
     VideoURL v1 \<noteq> VideoURL v2"
proof -
  define E1 where "E1 = EncodeToString (rand_Read_into e1 (replicate 32 0))"
  define E2 where "E2 = EncodeToString (rand_Read_into e2 (replicate 32 0))"
  from direct_success [OF assms(1)] obtain video1 ratio1 where
    v1: "v1 = video1\<lparr>VideoURL := Some (''https://'' @ s3Bucket cfg @ ''.s3.'' @ s3Region cfg
                    @ ''.amazonaws.com/'' @ ratio1 @ ''/'' @ E1 @ ''.mp4'')\<rparr>" and
    db1: "db w1 = (db w0)(ID video1 \<mapsto> v1)" and
    put1: "filter putEvent (new_events w0 w1) =
       [EvPutObject (s3Bucket cfg) (ratio1 @ ''/'' @ E1 @ ''.mp4'') ''video/mp4'']"
    unfolding E1_def by blast
  from direct_success [OF assms(2)] obtain video2 ratio2 where
    v2: "v2 = video2\<lparr>VideoURL := Some (''https://'' @ s3Bucket cfg @ ''.s3.'' @ s3Region cfg
                    @ ''.amazonaws.com/'' @ ratio2 @ ''/'' @ E2 @ ''.mp4'')\<rparr>" and
    db2: "db w2 = (db w1)(ID video2 \<mapsto> v2)" and
    put2: "filter putEvent (new_events w1 w2) =
       [EvPutObject (s3Bucket cfg) (ratio2 @ ''/'' @ E2 @ ''.mp4'') ''video/mp4'']"
    unfolding E2_def by blast
  have len: "length E1 = length E2"
    by (simp add: E1_def E2_def length_EncodeToString length_rand_Read_into)
  have E: "E1 \<noteq> E2"
  proof
    assume "E1 = E2"
    then have "rand_Read_into e1 (replicate 32 0) = rand_Read_into e2 (replicate 32 0)"
      unfolding E1_def E2_def
      by (intro EncodeToString_inj) (simp_all add: length_rand_Read_into)
    with assms(4) show False by simp
  qed
  have keys: "ratio1 @ ''/'' @ E1 @ ''.mp4'' \<noteq> ratio2 @ ''/'' @ E2 @ ''.mp4''"
  proof
    assume "ratio1 @ ''/'' @ E1 @ ''.mp4'' = ratio2 @ ''/'' @ E2 @ ''.mp4''"
    then have "(ratio1 @ ''/'') @ (E1 @ ''.mp4'') = (ratio2 @ ''/'') @ (E2 @ ''.mp4'')"
      by simp
    moreover have "length (E1 @ ''.mp4'') = length (E2 @ ''.mp4'')"
      using len by simp
    ultimately have "E1 @ ''.mp4'' = E2 @ ''.mp4''"
      using append_eq_append_conv [of "ratio1 @ ''/''" "ratio2 @ ''/''" "E1 @ ''.mp4''" "E2 @ ''.mp4''"]
      by blast
    with E show False by simp
  qed
  have id1: "ID v1 = ID video1" and id2: "ID v2 = ID video2"
    by (simp_all add: v1 v2)
  have "db w1 (ID v1) = Some v1"
    by (simp add: db1 id1)
  moreover have "db w2 (ID v1) = Some v2"
    using assms(3) by (simp add: db2 id2)
  moreover have "VideoURL v1 = Some (''https://'' @ s3Bucket cfg @ ''.s3.'' @ s3Region cfg
      @ ''.amazonaws.com/'' @ (ratio1 @ ''/'' @ E1 @ ''.mp4''))"
    by (simp add: v1)
  moreover have "VideoURL v2 = Some (''https://'' @ s3Bucket cfg @ ''.s3.'' @ s3Region cfg
      @ ''.amazonaws.com/'' @ (ratio2 @ ''/'' @ E2 @ ''.mp4''))"
    by (simp add: v2)
  moreover have "VideoURL v1 \<noteq> VideoURL v2"
    using keys by (simp add: v1 v2)
  ultimately show ?thesis
    using put1 put2 keys E unfolding E1_def E2_def
    by (intro exI [of _ "ratio1 @ ''/'' @ E1 @ ''.mp4''"] exI [of _ "ratio2 @ ''/'' @ E2 @ ''.mp4''"])
       (simp add: E1_def E2_def)
qed


theorem distinct_draws_distinct_keys_witness:
  "\<exists>key1 key2.
     filter putEvent (new_events world0 (snd run1)) = [EvPutObject (s3Bucket cfg0) key1 ''video/mp4''] \<and>
     filter putEvent (new_events (snd run1) (snd run2)) = [EvPutObject (s3Bucket cfg0) key2 ''video/mp4''] \<and>
     key1 \<noteq> key2 \<and>
     EncodeToString (rand_Read_into env0 (replicate 32 0))
       \<noteq> EncodeToString (rand_Read_into env1 (replicate 32 0)) \<and>
     db (snd run1) (ID (video0\<lparr>VideoURL := Some
       ''https://tubely.s3.eu-west-3.amazonaws.com/portrait/AQIDBAUGBwgJCgsMDQ4PEBESExQVFhcYGRobHB0eHyA.mp4''\<rparr>)) = Some (video0\<lparr>VideoURL := Some
       ''https://tubely.s3.eu-west-3.amazonaws.com/portrait/AQIDBAUGBwgJCgsMDQ4PEBESExQVFhcYGRobHB0eHyA.mp4''\<rparr>) \<and>
     VideoURL (video0\<lparr>VideoURL := Some
       ''https://tubely.s3.eu-west-3.amazonaws.com/portrait/AQIDBAUGBwgJCgsMDQ4PEBESExQVFhcYGRobHB0eHyA.mp4''\<rparr>) = Some (''https://'' @ s3Bucket cfg0 @ ''.s3.'' @ s3Region cfg0 @ ''.amazonaws.com/'' @ key1) \<and>
     db (snd run2) (ID (video0\<lparr>VideoURL := Some
       ''https://tubely.s3.eu-west-3.amazonaws.com/portrait/AQIDBAUGBwgJCgsMDQ4PEBESExQVFhcYGRobHB0eHyA.mp4''\<rparr>)) = Some (video0\<lparr>VideoURL := Some
       ''https://tubely.s3.eu-west-3.amazonaws.com/portrait/__________________________________________8.mp4''\<rparr>) \<and>
     VideoURL (video0\<lparr>VideoURL := Some
       ''https://tubely.s3.eu-west-3.amazonaws.com/portrait/__________________________________________8.mp4''\<rparr>) = Some (''https://'' @ s3Bucket cfg0 @ ''.s3.'' @ s3Region cfg0 @ ''.amazonaws.com/'' @ key2) \<and>
     VideoURL (video0\<lparr>VideoURL := Some
       ''https://tubely.s3.eu-west-3.amazonaws.com/portrait/AQIDBAUGBwgJCgsMDQ4PEBESExQVFhcYGRobHB0eHyA.mp4''\<rparr>) \<noteq> VideoURL (video0\<lparr>VideoURL := Some
       ''https://tubely.s3.eu-west-3.amazonaws.com/portrait/__________________________________________8.mp4''\<rparr>)"
proof (rule distinct_draws_distinct_keys [of env0 _ req0 _ _ _ env1 req0])
  show "handlerUploadVideo_direct env0 cfg0 req0 world0 = (respondWithJSON 200 (video0\<lparr>VideoURL := Some
       ''https://tubely.s3.eu-west-3.amazonaws.com/portrait/AQIDBAUGBwgJCgsMDQ4PEBESExQVFhcYGRobHB0eHyA.mp4''\<rparr>), snd run1)"
    using run1_eval unfolding run1_def by (metis prod.collapse)
  show "handlerUploadVideo_direct env1 cfg0 req0 (snd run1) = (respondWithJSON 200 (video0\<lparr>VideoURL := Some
       ''https://tubely.s3.eu-west-3.amazonaws.com/portrait/__________________________________________8.mp4''\<rparr>), snd run2)"
    using run2_eval unfolding run2_def by (metis prod.collapse)
  show "ID (video0\<lparr>VideoURL := Some
       ''https://tubely.s3.eu-west-3.amazonaws.com/portrait/AQIDBAUGBwgJCgsMDQ4PEBESExQVFhcYGRobHB0eHyA.mp4''\<rparr>) = ID (video0\<lparr>VideoURL := Some
       ''https://tubely.s3.eu-west-3.amazonaws.com/portrait/__________________________________________8.mp4''\<rparr>)"
    by simp
  show "rand_Read_into env0 (replicate 32 0) \<noteq> rand_Read_into env1 (replicate 32 0)"
    by (simp add: rand_Read_into_def env0_def env1_def)
qed


section \<open>Runs of the revision with signed URLs\<close>

lemma strings_Split_from_no_sep:
  "sep \<notin> set s \<Longrightarrow> strings_Split_from piece s sep = [piece @ s]"
  by (induction s arbitrary: piece) auto

lemma length_strings_Split_from:
  "length (strings_Split_from piece s sep) = Suc (count_list s sep)"
  by (induction s arbitrary: piece) auto

lemma count_list_append: "count_list (xs @ ys) x = count_list xs x + count_list ys x"
  by (induction xs) auto

lemma split_raw_pair: "\<not> length (strings_Split (bucket @ CHR '','' # key) CHR '','') < 2"
  by (simp add: strings_Split_def length_strings_Split_from count_list_append)

lemma signed_processed_trace:
  fixes e cfg video mediaType ratio processed w
  defines "key \<equiv> ratio @ ''/'' @ getAssetPath e (mediaTypeToExt e mediaType)"
  defines "splitted \<equiv> strings_Split (s3Bucket cfg @ '','' @ key) CHR '',''"
  defines "res \<equiv> handlerUploadVideo_signed_processed e cfg video mediaType ratio processed w"
  shows "\<exists>new. events (snd res) = events w @ new
     \<and> signed_trace e cfg video mediaType key (splitted ! 0) (splitted ! 1) (fst res) new
          (db w) (db (snd res))"
  unfolding res_def splitted_def key_def signed_trace_def
    handlerUploadVideo_signed_processed_def dbVideoToSignedVideo_def generatePresignedURL_def
    PutObject_def UpdateVideo_def os_Open_def deferring_def Let_def
  by (simp add: split_raw_pair split: sum.splits option.splits prod.splits outcome.splits)

lemma signed_trace_snoc:
  "\<not> storeEvent ev \<Longrightarrow> \<not> putEvent ev \<Longrightarrow> signed_trace e cfg v ct key b k resp new d d'
     \<Longrightarrow> signed_trace e cfg v ct key b k resp (new @ [ev]) d d'"
  by (simp add: signed_trace_def)

lemma signed_trace_prepend:
  "filter storeEvent pre = [] \<Longrightarrow> filter putEvent pre = []
     \<Longrightarrow> signed_trace e cfg v ct key b k resp new d d'
     \<Longrightarrow> signed_trace e cfg v ct key b k resp (pre @ new) d d'"
  by (simp add: signed_trace_def)

lemma signed_ok_deferring:
  assumes "signed_ok e cfg video ct w res"
  shows "signed_ok e cfg video ct w (deferring d res)"
proof -
  from assms obtain key b k new where
    ev: "events (snd res) = events w @ new" and
    tr: "signed_trace e cfg video ct key b k (fst res) new (db w) (db (snd res))"
    unfolding signed_ok_def by blast
  obtain ev' where d: "events (runDeferred d (snd res)) = events (snd res) @ [ev']"
      "\<not> storeEvent ev'" "\<not> putEvent ev'" "db (runDeferred d (snd res)) = db (snd res)"
    by (cases d) simp_all
  from signed_trace_snoc [OF d(2,3) tr] ev d(1,4) show ?thesis
    unfolding signed_ok_def deferring_def
    by (intro exI [of _ key] exI [of _ b] exI [of _ k] exI [of _ "new @ [ev']"]) simp
qed

lemma signed_ok_error:
  assumes "\<And>v. resp \<noteq> respondWithJSON 200 v" and "events w1 = events w @ new"
    and "filter storeEvent new = []" and "db w1 = db w"
  shows "signed_ok e cfg video ct w (resp, w1)"
  unfolding signed_ok_def signed_trace_def using assms by auto

lemma signed_ok_shift:
  assumes "signed_ok e cfg video ct w1 res" and "events w1 = events w @ pre"
    and "filter storeEvent pre = []" and "filter putEvent pre = []" and "db w1 = db w"
  shows "signed_ok e cfg video ct w res"
proof -
  from assms(1) obtain key b k new where
    ev: "events (snd res) = events w1 @ new" and
    tr: "signed_trace e cfg video ct key b k (fst res) new (db w1) (db (snd res))"
    unfolding signed_ok_def by blast
  from signed_trace_prepend [OF assms(3,4) tr] ev assms(2,5) show ?thesis
    unfolding signed_ok_def
    by (intro exI [of _ key] exI [of _ b] exI [of _ k] exI [of _ "pre @ new"]) simp
qed

lemma signed_ok_processed:
  "signed_ok e cfg video mediaType w
     (handlerUploadVideo_signed_processed e cfg video mediaType ratio processed w)"
  unfolding signed_ok_def using signed_processed_trace by blast

lemma signed_ok_probed:
  "signed_ok e cfg video mediaType w
     (handlerUploadVideo_signed_probed e cfg video mediaType ratio tmpFile w)"
proof (cases "processVideoForFastStart e tmpFile w")
  case (Pair res w1)
  then have w1: "events w1 = events w @ []" "db w1 = db w"
    by (auto simp add: processVideoForFastStart_def Let_def
        split: prod.splits option.splits sum.splits if_splits)
  show ?thesis
  proof (cases res)
    case (Inl err)
    with Pair w1 show ?thesis
      by (simp add: handlerUploadVideo_signed_probed_def Let_def signed_ok_error)
  next
    case (Inr processed)
    have "signed_ok e cfg video mediaType w1
        (deferring (DeferRemove processed)
           (handlerUploadVideo_signed_processed e cfg video mediaType (orientation ratio)
              processed w1))"
      by (intro signed_ok_deferring signed_ok_processed)
    from signed_ok_shift [OF this w1(1) _ _ w1(2)] Pair Inr show ?thesis
      by (simp add: handlerUploadVideo_signed_probed_def Let_def)
  qed
qed

lemma signed_ok_accepted:
  "signed_ok e cfg video ''video/mp4'' w
     (handlerUploadVideo_signed_accepted e cfg video uploadedVideo header w)"
proof -
  have err: "signed_ok e cfg video ''video/mp4'' w (respondWithError c m, w)" for c m
    by (rule signed_ok_error [where new = "[]"]) simp_all
  have tmp: "signed_ok e cfg video ''video/mp4'' w (respondWithError c m, w1)"
    if "events w1 = events w @ [EvCreateTemp n]" "db w1 = db w" for c m w1 n
    by (rule signed_ok_error [where new = "[EvCreateTemp n]"]) (simp_all add: that)
  have rest: "signed_ok e cfg video ''video/mp4'' w
      (deferring (DeferRemove n)
         (deferring (DeferClose n)
            (handlerUploadVideo_signed_probed e cfg video ''video/mp4'' ratio n w1)))"
    if "events w1 = events w @ [EvCreateTemp n]" "db w1 = db w" for ratio w1 n
    by (rule signed_ok_shift [OF _ that(1) _ _ that(2)])
       (simp_all add: signed_ok_deferring signed_ok_probed)
  show ?thesis
    unfolding handlerUploadVideo_signed_accepted_def CreateTemp_def Copy_def
    by (auto simp add: err tmp rest split: sum.splits prod.splits option.splits)
qed

lemma signed_ok_handler:
  "validateOwnership e cfg r w = Inr video \<Longrightarrow>
     signed_ok e cfg video ''video/mp4'' w (handlerUploadVideo_signed e cfg r w)"
  unfolding handlerUploadVideo_signed_def Let_def
  by (auto simp add: signed_ok_deferring signed_ok_accepted
      intro!: signed_ok_error [where new = "[]"]
      split: sum.splits prod.splits)

lemmas signed_defs = handlerUploadVideo_signed_def validateOwnership_def GetVideo_def
  handlerUploadVideo_signed_accepted_def handlerUploadVideo_signed_probed_def
  handlerUploadVideo_signed_processed_def processVideoForFastStart_def
  getVideoAspectRatio_def CreateTemp_def Copy_def os_Stat_def os_Open_def PutObject_def
  UpdateVideo_def deferring_def Header_Get_def orientation_def dbVideoToSignedVideo_def
  generatePresignedURL_def strings_Split_def

section \<open>The stored reference under signed URLs\<close>

text \<open>
  C5: in the revision with signed URLs, the calls of a run that write the metadata
  store or sign a URL are one of three sequences. None at all, the store unchanged and
  the answer not a 200. Or, after the one upload under \<open>key\<close>, one write of the fetched
  record with the reference \<open>bucket,key\<close>, refused by the store, the store unchanged and
  the answer not a 200. Or that write, accepted, followed by one signing with an expiry
  of \<^verbatim>\<open>time.Second*5\<close>, five seconds: the store then holds the record with the reference
  \<open>bucket,key\<close>, no write follows the signing, and the answer is 200 with the signed URL
  in the record, or 500 when the signing failed.
\<close>

theorem signed_variant_store_keeps_raw_pair:
  assumes "handlerUploadVideo_signed e cfg r w = (resp, w')"
  shows "time_Second * 5 = 5000000000 \<and>
    (\<exists>video key b k.
       (filter storeEvent (new_events w w') = [] \<and> db w' = db w
          \<and> (\<forall>v. resp \<noteq> respondWithJSON 200 v))
     \<or> (validateOwnership e cfg r w = Inr video
        \<and> filter storeEvent (new_events w w')
            = [EvUpdateVideo (video\<lparr>VideoURL := Some (s3Bucket cfg @ '','' @ key)\<rparr>)]
        \<and> filter putEvent (new_events w w') = [EvPutObject (s3Bucket cfg) key ''video/mp4'']
        \<and> db_UpdateVideo e (video\<lparr>VideoURL := Some (s3Bucket cfg @ '','' @ key)\<rparr>) \<noteq> None
        \<and> db w' = db w \<and> (\<forall>v. resp \<noteq> respondWithJSON 200 v))
     \<or> (validateOwnership e cfg r w = Inr video
        \<and> filter storeEvent (new_events w w')
            = [EvUpdateVideo (video\<lparr>VideoURL := Some (s3Bucket cfg @ '','' @ key)\<rparr>),
               EvPresignGetObject b k (time_Second * 5)]
        \<and> filter putEvent (new_events w w') = [EvPutObject (s3Bucket cfg) key ''video/mp4'']
        \<and> db_UpdateVideo e (video\<lparr>VideoURL := Some (s3Bucket cfg @ '','' @ key)\<rparr>) = None
        \<and> db w' = (db w)(ID video \<mapsto> video\<lparr>VideoURL := Some (s3Bucket cfg @ '','' @ key)\<rparr>)
        \<and> (case s3_PresignGetObject e b k (time_Second * 5) of
              Inl err \<Rightarrow> resp = respondWithError 500 ''Error when updating video''
            | Inr url \<Rightarrow> resp = respondWithJSON 200 (video\<lparr>VideoURL := Some url\<rparr>))))"
proof (cases "validateOwnership e cfg r w")
  case (Inl early)
  with assms have "w' = w" "resp = early"
    by (simp_all add: handlerUploadVideo_signed_def)
  with validateOwnership_Inl [OF Inl] show ?thesis
    by (simp add: new_events_def time_Second_def)
next
  case (Inr video)
  from signed_ok_handler [OF Inr] assms obtain key b k new where
    new: "events w' = events w @ new" and
    tr: "signed_trace e cfg video ''video/mp4'' key b k resp new (db w) (db w')"
    unfolding signed_ok_def by auto
  from new have "new_events w w' = new"
    by (simp add: new_events_def)
  with tr Inr have "\<exists>video key b k.
       (filter storeEvent (new_events w w') = [] \<and> db w' = db w
          \<and> (\<forall>v. resp \<noteq> respondWithJSON 200 v))
     \<or> (validateOwnership e cfg r w = Inr video
        \<and> filter storeEvent (new_events w w')
            = [EvUpdateVideo (video\<lparr>VideoURL := Some (s3Bucket cfg @ '','' @ key)\<rparr>)]
        \<and> filter putEvent (new_events w w') = [EvPutObject (s3Bucket cfg) key ''video/mp4'']
        \<and> db_UpdateVideo e (video\<lparr>VideoURL := Some (s3Bucket cfg @ '','' @ key)\<rparr>) \<noteq> None
        \<and> db w' = db w \<and> (\<forall>v. resp \<noteq> respondWithJSON 200 v))
     \<or> (validateOwnership e cfg r w = Inr video
        \<and> filter storeEvent (new_events w w')
            = [EvUpdateVideo (video\<lparr>VideoURL := Some (s3Bucket cfg @ '','' @ key)\<rparr>),
               EvPresignGetObject b k (time_Second * 5)]
        \<and> filter putEvent (new_events w w') = [EvPutObject (s3Bucket cfg) key ''video/mp4'']
        \<and> db_UpdateVideo e (video\<lparr>VideoURL := Some (s3Bucket cfg @ '','' @ key)\<rparr>) = None
        \<and> db w' = (db w)(ID video \<mapsto> video\<lparr>VideoURL := Some (s3Bucket cfg @ '','' @ key)\<rparr>)
        \<and> (case s3_PresignGetObject e b k (time_Second * 5) of
              Inl err \<Rightarrow> resp = respondWithError 500 ''Error when updating video''
            | Inr url \<Rightarrow> resp = respondWithJSON 200 (video\<lparr>VideoURL := Some url\<rparr>)))"
    unfolding signed_trace_def
    by (intro exI [of _ video] exI [of _ key] exI [of _ b] exI [of _ k]) simp
  then show ?thesis
    by (simp add: time_Second_def)
qed

theorem signed_variant_store_keeps_raw_pair_witness:
  "fst (handlerUploadVideo_signed env0 cfg0 req0 world0) =
     respondWithJSON 200 (video0\<lparr>VideoURL := Some
       ''https://tubely.s3.amazonaws.com/portrait/AQID.mp4?X-Amz-Signature=5f''\<rparr>)
   \<and> db (snd (handlerUploadVideo_signed env0 cfg0 req0 world0)) 1 =
     Some (video0\<lparr>VideoURL := Some ''tubely,portrait/AQID.mp4''\<rparr>)
   \<and> filter storeEvent (new_events world0 (snd (handlerUploadVideo_signed env0 cfg0 req0 world0))) =
     [EvUpdateVideo (video0\<lparr>VideoURL := Some ''tubely,portrait/AQID.mp4''\<rparr>),
      EvPresignGetObject ''tubely'' ''portrait/AQID.mp4'' 5000000000]
   \<and> time_Second * 5 = 5000000000"
proof -
  have "handlerUploadVideo_signed env0 cfg0 req0 world0 =
      (fst (handlerUploadVideo_signed env0 cfg0 req0 world0),
       snd (handlerUploadVideo_signed env0 cfg0 req0 world0))"
    by simp
  from signed_variant_store_keeps_raw_pair [OF this]
  have "time_Second * 5 = 5000000000"
    by blast
  then show ?thesis
    by (simp add: signed_defs scenario_defs Let_def new_events_def)
qed

text \<open>
  C9: on a record whose URL is set and holds no comma, \<^verbatim>\<open>dbVideoToSignedVideo\<close> returns
  the record as it is and no error, and makes no outside call.
\<close>

theorem dbVideoToSignedVideo_static_url_unchanged:
  assumes "VideoURL video = Some url" and "CHR '','' \<notin> set url"
  shows "dbVideoToSignedVideo e video w = (Returns (video, None), w)"
  using assms
  by (simp add: dbVideoToSignedVideo_def strings_Split_def strings_Split_from_no_sep)

theorem dbVideoToSignedVideo_static_url_unchanged_witness:
  "dbVideoToSignedVideo env0
     (video0\<lparr>VideoURL := Some ''https://d1.cloudfront.net/portrait/AQID.mp4''\<rparr>) world0 =
   (Returns (video0\<lparr>VideoURL := Some ''https://d1.cloudfront.net/portrait/AQID.mp4''\<rparr>, None),
    world0)"
  using dbVideoToSignedVideo_static_url_unchanged
    [of "video0\<lparr>VideoURL := Some ''https://d1.cloudfront.net/portrait/AQID.mp4''\<rparr>"
        "''https://d1.cloudfront.net/portrait/AQID.mp4''" env0 world0]
  by simp


end
